theory Spec2Isabelle
  imports Complex_Main "HOL-Library.Word" "HOL-Library.AList"
begin

unbundle bit_operations_syntax

section \<open>The DEX state model (package dex)\<close>

type_synonym byte = "8 word"
type_synonym uint64 = "64 word"
type_synonym TokenID = "64 word"

text \<open>
  A public key and the address derived from it are byte strings. The derivation
  \<open>PK.Addr()\<close> belongs to the consensus package and is a parameter of the model
  (field \<open>addrOf\<close> of the codec below).
\<close>

type_synonym PK = "byte list"
type_synonym Addr = "byte list"

subsection \<open>MarketSymbol and its byte encoding (state.go)\<close>

record MarketSymbol =
  Base :: TokenID
  Quote :: TokenID

text \<open>
  \<open>binary.LittleEndian.PutUint64(b, v)\<close> stores the eight bytes of \<open>v\<close>, least
  significant first, into \<open>b[0..7]\<close>; \<open>binary.LittleEndian.Uint64(b)\<close> reads them
  back. Both panic on a slice shorter than eight bytes; every call below is on a slice of
  64 bytes.
\<close>

definition PutUint64 :: "byte list \<Rightarrow> uint64 \<Rightarrow> byte list" where
  "PutUint64 b v = b[0 := ucast v, 1 := ucast (drop_bit 8 v), 2 := ucast (drop_bit 16 v),
     3 := ucast (drop_bit 24 v), 4 := ucast (drop_bit 32 v), 5 := ucast (drop_bit 40 v),
     6 := ucast (drop_bit 48 v), 7 := ucast (drop_bit 56 v)]"

definition Uint64 :: "byte list \<Rightarrow> uint64" where
  "Uint64 b = ucast (b ! 0) OR push_bit 8 (ucast (b ! 1)) OR push_bit 16 (ucast (b ! 2))
     OR push_bit 24 (ucast (b ! 3)) OR push_bit 32 (ucast (b ! 4)) OR push_bit 40 (ucast (b ! 5))
     OR push_bit 48 (ucast (b ! 6)) OR push_bit 56 (ucast (b ! 7))"

text \<open>\<open>make([]byte, n)\<close>: a slice of \<open>n\<close> zero bytes.\<close>

definition make_bytes :: "nat \<Rightarrow> byte list" where
  "make_bytes n = replicate n 0"

definition Encode :: "MarketSymbol \<Rightarrow> byte list" where
  "Encode m =
     (let bufA = PutUint64 (make_bytes 64) (Quote m);
          bufB = PutUint64 (make_bytes 64) (Base m)
      in bufA @ bufB)"

datatype decode_error = BytesLenNotCorrect nat

text \<open>
  \<open>Decode\<close> assigns the receiver's two fields and returns nil, or returns the length
  error and leaves the receiver alone; the model returns the decoded symbol or the error.
\<close>

definition Decode :: "byte list \<Rightarrow> decode_error + MarketSymbol" where
  "Decode b =
     (if length b \<noteq> 128 then Inl (BytesLenNotCorrect (length b))
      else Inr \<lparr>Base = Uint64 (drop 64 b), Quote = Uint64 (take 64 b)\<rparr>)"

subsection \<open>Tokens, balances, accounts (state.go, rpc_server.go)\<close>

record TokenInfo =
  Symbol :: string
  Decimals :: "8 word"
  TotalUnits :: uint64

text \<open>Go's \<open>Token\<close> embeds \<open>TokenInfo\<close> beside its \<open>ID\<close>; the embedded struct is the field \<open>Info\<close>.\<close>

record Token =
  ID :: TokenID
  Info :: TokenInfo

definition BNBInfo :: TokenInfo where
  "BNBInfo = \<lparr>Symbol = ''BNB'', Decimals = 8, TotalUnits = 200000000 * 100000000\<rparr>"

record Balance =
  Available :: uint64
  Pending :: uint64

record Account =
  PK :: PK
  Balances :: "TokenID \<rightharpoonup> Balance"
  NonceVec :: "uint64 list"
  OrderMarkets :: "MarketSymbol list"

subsection \<open>Transactions (the txn declarations that follow rpc_server.go)\<close>

type_synonym TxnType = "8 word"

definition PlaceOrder :: TxnType where "PlaceOrder = 0"
definition CancelOrder :: TxnType where "CancelOrder = 1"
definition IssueToken :: TxnType where "IssueToken = 2"
definition SendToken :: TxnType where "SendToken = 3"
definition FreezeToken :: TxnType where "FreezeToken = 4"
definition BurnToken :: TxnType where "BurnToken = 5"

definition OrderPriceDecimals :: nat where
  "OrderPriceDecimals = 8"

record Txn =
  T :: TxnType
  Data :: "byte list"
  NonceIdx :: "8 word"
  NonceValue :: uint64
  Owner :: Addr
  Sig :: "byte list"

record PlaceOrderTxn =
  SellSide :: bool
  Quant :: uint64
  Price :: uint64
  ExpireRound :: uint64
  Market :: MarketSymbol

record SendTokenTxn =
  SendTokenID :: TokenID
  To :: PK
  SendQuant :: uint64

text \<open>
  The decoders are library code (rlp for the transaction envelope, gob for its payload)
  and \<open>PK.Addr()\<close> is the consensus package's: the model takes them as parameters. A
  decoder returns \<open>None\<close> where the Go call returns an error.

  \<open>buyQuant\<close> stands for the buy-side amount of \<open>placeOrder\<close>,
  \<open>uint64(float64(txn.Quant) * txn.Price)\<close>. The line is float64 arithmetic and takes
  \<open>Price\<close> as a float64, while the declaration of \<open>PlaceOrderTxn\<close> in the sources has
  it as a uint64; the model does not compute it. The amount is a parameter: some uint64
  for every quantity and price, as the Go conversion always yields one.
\<close>

record codec =
  addrOf :: "PK \<Rightarrow> Addr"
  decodeTxn :: "byte list \<Rightarrow> Txn option"
  decodePlaceOrderTxn :: "byte list \<Rightarrow> PlaceOrderTxn option"
  decodeSendTokenTxn :: "byte list \<Rightarrow> SendTokenTxn option"
  buyQuant :: "uint64 \<Rightarrow> uint64 \<Rightarrow> uint64"

subsection \<open>Pending orders and expirations\<close>

text \<open>
  Modelled from the spec: \<open>matching.Order\<close> is not in the sources. The spec describes
  orders as priced, sided and expiring; the record has the fields of the placement that
  describe the order. \<open>matching.Order{}\<close> is Go's zero value: every field zero.
\<close>

record Order =
  OrderSellSide :: bool
  OrderQuant :: uint64
  OrderPrice :: uint64
  OrderExpireRound :: uint64

definition zero_Order :: Order where
  "zero_Order = \<lparr>OrderSellSide = False, OrderQuant = 0, OrderPrice = 0, OrderExpireRound = 0\<rparr>"

definition order_of :: "PlaceOrderTxn \<Rightarrow> Order" where
  "order_of p = \<lparr>OrderSellSide = SellSide p, OrderQuant = Quant p, OrderPrice = Price p,
     OrderExpireRound = ExpireRound p\<rparr>"

record PendingOrder =
  POwner :: Addr
  POrder :: Order

type_synonym OrderID = uint64

record orderExpiration =
  ExpID :: OrderID
  ExpOwner :: Addr

subsection \<open>The state a Transition works on\<close>

text \<open>
  Modelled from the spec: the struct \<open>state\<close> that \<open>Transition\<close> embeds is not in the
  sources; transition code uses its fields \<open>tokenCache\<close> and \<open>accounts\<close> and its
  methods \<open>UpdateAccount\<close> and \<open>UpdatePendingOrder\<close>. Following the spec's state model
  it holds the token registry, the accounts keyed by address, the pending orders of each
  market and the expirations of each round. By the spec a read within a transition sees
  the transition's own writes, so there is one store of accounts, read by
  \<open>accounts.TryGet\<close> and by the owner lookup and written by \<open>UpdateAccount\<close>. It is
  an association list with one entry per address, so that it can be enumerated.
\<close>

record state =
  tokenCache :: "TokenID \<rightharpoonup> TokenInfo"
  accounts :: "(Addr \<times> Account) list"
  pendingOrders :: "MarketSymbol \<Rightarrow> PendingOrder list"
  orderExpirations :: "uint64 \<Rightarrow> orderExpiration list"

text \<open>\<open>Transition\<close> embeds \<open>state\<close> and adds the recorded transactions.\<close>

record Transition = state +
  txns :: "byte list list"

definition UpdateToken :: "'a state_scheme \<Rightarrow> Token \<Rightarrow> 'a state_scheme" where
  "UpdateToken s token = s\<lparr>tokenCache := (tokenCache s)(ID token \<mapsto> Info token)\<rparr>"

text \<open>
  \<open>UpdateAccount\<close> stores the account under the address of its public key, as
  \<open>State.UpdateAccount\<close> of state.go does; \<open>Account_of\<close> is the lookup of
  \<open>State.Account\<close>.
\<close>

definition UpdateAccount :: "codec \<Rightarrow> 'a state_scheme \<Rightarrow> Account \<Rightarrow> 'a state_scheme" where
  "UpdateAccount cd s acc = s\<lparr>accounts := AList.update (addrOf cd (PK acc)) acc (accounts s)\<rparr>"

definition Account_of :: "'a state_scheme \<Rightarrow> Addr \<Rightarrow> Account option" where
  "Account_of s addr = map_of (accounts s) addr"

text \<open>
  Modelled from the spec: \<open>UpdatePendingOrder(market, add, remove)\<close> is not in the
  sources. The spec has a placement append a PendingOrder entry for the market; the
  entry to remove, when given, is taken out.
\<close>

definition UpdatePendingOrder ::
  "'a state_scheme \<Rightarrow> MarketSymbol \<Rightarrow> PendingOrder option \<Rightarrow> PendingOrder option \<Rightarrow> 'a state_scheme" where
  "UpdatePendingOrder s m add remove =
     (let kept = (case remove of None \<Rightarrow> pendingOrders s m
                  | Some r \<Rightarrow> filter (\<lambda>p. p \<noteq> r) (pendingOrders s m));
          new = (case add of None \<Rightarrow> kept | Some a \<Rightarrow> kept @ [a])
      in s\<lparr>pendingOrders := (pendingOrders s)(m := new)\<rparr>)"

definition getOrderExpirations :: "'a state_scheme \<Rightarrow> uint64 \<Rightarrow> orderExpiration list" where
  "getOrderExpirations s rnd = orderExpirations s rnd"

definition AddOrderExpirations :: "'a state_scheme \<Rightarrow> uint64 \<Rightarrow> orderExpiration list \<Rightarrow> 'a state_scheme" where
  "AddOrderExpirations s rnd ids =
     (let all = getOrderExpirations s rnd @ ids
      in s\<lparr>orderExpirations := (orderExpirations s)(rnd := all)\<rparr>)"

subsection \<open>Genesis (state.go)\<close>

text \<open>The loop that numbers the additional tokens: \<open>tokenID\<close> is a uint64 counter.\<close>

fun number_tokens :: "TokenID \<Rightarrow> TokenInfo list \<Rightarrow> Token list" where
  "number_tokens tokenID [] = []"
| "number_tokens tokenID (t # ts) = \<lparr>ID = tokenID, Info = t\<rparr> # number_tokens (tokenID + 1) ts"

definition genesis_tokens :: "TokenInfo list \<Rightarrow> Token list" where
  "genesis_tokens additionalTokens = \<lparr>ID = 0, Info = BNBInfo\<rparr> # number_tokens 1 additionalTokens"

text \<open>
  The inner loop: every token's \<open>TotalUnits / uint64(len(recipients))\<close> becomes the
  account's available balance. The division is only reached with at least one recipient.
\<close>

definition genesis_balances :: "nat \<Rightarrow> Token list \<Rightarrow> (TokenID \<rightharpoonup> Balance)" where
  "genesis_balances n tokens =
     foldl (\<lambda>m t. m(ID t \<mapsto> \<lparr>Available = TotalUnits (Info t) div of_nat n, Pending = 0\<rparr>))
       Map.empty tokens"

definition genesis_account :: "nat \<Rightarrow> Token list \<Rightarrow> PK \<Rightarrow> Account" where
  "genesis_account n tokens pk =
     \<lparr>PK = pk, Balances = genesis_balances n tokens, NonceVec = [], OrderMarkets = []\<rparr>"

definition NewState :: state where
  "NewState = \<lparr>tokenCache = Map.empty, accounts = [], pendingOrders = (\<lambda>_. []),
     orderExpirations = (\<lambda>_. [])\<rparr>"

definition CreateGenesisState :: "codec \<Rightarrow> PK list \<Rightarrow> TokenInfo list \<Rightarrow> state" where
  "CreateGenesisState cd recipients additionalTokens =
     (let tokens = genesis_tokens additionalTokens;
          s = foldl UpdateToken NewState tokens
      in foldl (\<lambda>s pk. UpdateAccount cd s (genesis_account (length recipients) tokens pk))
           s recipients)"

text \<open>\<open>State.Transition\<close> followed by \<open>newTransition\<close>: a transition on the state, nothing recorded.\<close>

definition newTransition :: "state \<Rightarrow> Transition" where
  "newTransition s = \<lparr>tokenCache = tokenCache s, accounts = accounts s,
     pendingOrders = pendingOrders s, orderExpirations = orderExpirations s, txns = []\<rparr>"

subsection \<open>Validation (validateNonce)\<close>

text \<open>
  \<open>validateNonce\<close> looks the owner up; its signature and nonce checks are commented
  out in the source, so an existing owner is always ready and valid.
\<close>

definition validateNonce :: "'a state_scheme \<Rightarrow> Txn \<Rightarrow> Account option \<times> bool \<times> bool" where
  "validateNonce s txn =
     (case Account_of s (Owner txn) of
        None \<Rightarrow> (None, False, False)
      | Some acc \<Rightarrow> (Some acc, True, True))"

text \<open>
  Modelled from the spec: \<open>validateSigAndNonce\<close>, which \<open>Record\<close> calls on the raw
  bytes, is not in the sources. By the spec a transaction is valid when the bytes decode
  and the owner, nonce and signature checks pass; the checks are those of
  \<open>validateNonce\<close> above.
\<close>

definition validateSigAndNonce ::
  "codec \<Rightarrow> 'a state_scheme \<Rightarrow> byte list \<Rightarrow> Txn option \<times> Account option \<times> bool \<times> bool" where
  "validateSigAndNonce cd s b =
     (case decodeTxn cd b of
        None \<Rightarrow> (None, None, False, False)
      | Some txn \<Rightarrow> (case validateNonce s txn of (acc, ready, valid) \<Rightarrow> (Some txn, acc, ready, valid)))"

text \<open>How a call ends when it does not return: a Go panic.\<close>

datatype abort = Panic string

subsection \<open>Transition.Record, placeOrder, sendToken\<close>

definition placeOrder :: "codec \<Rightarrow> Transition \<Rightarrow> Account \<Rightarrow> PlaceOrderTxn \<Rightarrow> Transition \<times> bool" where
  "placeOrder cd t owner txn =
     (case tokenCache t (Base (Market txn)) of
        None \<Rightarrow> (t, False)
      | Some baseInfo \<Rightarrow>
     (case tokenCache t (Quote (Market txn)) of
        None \<Rightarrow> (t, False)
      | Some quoteInfo \<Rightarrow>
          let sellQuant = (if SellSide txn then Quant txn else buyQuant cd (Quant txn) (Price txn));
              sell = (if SellSide txn then Base (Market txn) else Quote (Market txn))
          in
     (case Balances owner sell of
        None \<Rightarrow> (t, False)
      | Some sb \<Rightarrow>
          if Available sb \<le> sellQuant then (t, False)
          else
            let sb1 = sb\<lparr>Available := Available sb - sellQuant\<rparr>;
                sb2 = sb1\<lparr>Pending := Pending sb1 + sellQuant\<rparr>;
                owner' = owner\<lparr>Balances := (Balances owner)(sell \<mapsto> sb2)\<rparr>;
                t1 = UpdateAccount cd t owner';
                add = \<lparr>POwner = addrOf cd (PK owner'), POrder = zero_Order\<rparr>;
                t2 = UpdatePendingOrder t1 (Market txn) (Some add) None
            in (t2, True))))"

text \<open>
  In \<open>sendToken\<close> the recipient is read with \<open>t.accounts.TryGet\<close>. When it is absent a
  fresh account is made. When it is present the source decodes into \<open>toAcc\<close>, which is
  still the nil pointer declared by \<open>var toAcc *Account\<close>: gob's \<open>Decode\<close> refuses a
  nil pointer with an error, and the function returns false.
\<close>

definition sendToken :: "codec \<Rightarrow> Transition \<Rightarrow> Account \<Rightarrow> SendTokenTxn \<Rightarrow> Transition \<times> bool" where
  "sendToken cd t owner txn =
     (if SendQuant txn = 0 then (t, False)
      else case Balances owner (SendTokenID txn) of
        None \<Rightarrow> (t, False)
      | Some b \<Rightarrow>
          if Available b < SendQuant txn then (t, False)
          else
            let toAddr = addrOf cd (To txn)
            in case map_of (accounts t) toAddr of
                 Some to \<Rightarrow> (t, False)
               | None \<Rightarrow>
                   let toAcc = \<lparr>PK = To txn, Balances = Map.empty, NonceVec = [], OrderMarkets = []\<rparr>;
                       owner' = owner\<lparr>Balances := (Balances owner)
                          (SendTokenID txn \<mapsto> b\<lparr>Available := Available b - SendQuant txn\<rparr>)\<rparr>;
                       tb = (case Balances toAcc (SendTokenID txn) of
                               None \<Rightarrow> \<lparr>Available = 0, Pending = 0\<rparr> | Some x \<Rightarrow> x);
                       toAcc' = toAcc\<lparr>Balances := (Balances toAcc)
                          (SendTokenID txn \<mapsto> tb\<lparr>Available := Available tb + SendQuant txn\<rparr>)\<rparr>;
                       t1 = UpdateAccount cd t toAcc';
                       t2 = UpdateAccount cd t1 owner'
                   in (t2, True))"

text \<open>
  \<open>Record\<close> returns the named results \<open>(valid, success)\<close>; the model returns the
  transition with them, or the panic. A bare \<open>return\<close> after validation returns
  \<open>valid = true\<close> and \<open>success = false\<close>. Type 2 is the source's \<open>CreateToken\<close> case.
\<close>

definition Record :: "codec \<Rightarrow> Transition \<Rightarrow> byte list \<Rightarrow> abort + (Transition \<times> bool \<times> bool)" where
  "Record cd t b =
     (case validateSigAndNonce cd t b of (txn, acc, ready, valid) \<Rightarrow>
        if \<not> valid then Inr (t, False, False)
        else if \<not> ready then Inr (t, True, False)
        else (case (txn, acc) of
            (Some txn, Some acc) \<Rightarrow>
              if T txn = PlaceOrder then
                (case decodePlaceOrderTxn cd (Data txn) of
                   None \<Rightarrow> Inr (t, True, False)
                 | Some p \<Rightarrow>
                    (case placeOrder cd t acc p of (t', ok) \<Rightarrow>
                       if \<not> ok then Inr (t', True, False)
                       else Inr (t'\<lparr>txns := txns t' @ [b]\<rparr>, True, True)))
              else if T txn = CancelOrder then Inl (Panic ''not implemented'')
              else if T txn = IssueToken then Inl (Panic ''not implemented'')
              else if T txn = SendToken then
                (case decodeSendTokenTxn cd (Data txn) of
                   None \<Rightarrow> Inr (t, True, False)
                 | Some p \<Rightarrow>
                    (case sendToken cd t acc p of (t', ok) \<Rightarrow>
                       if \<not> ok then Inr (t', True, False)
                       else Inr (t'\<lparr>txns := txns t' @ [b]\<rparr>, True, True)))
              else Inl (Panic ''unknown txn type'')
          | _ \<Rightarrow> Inl (Panic ''nil pointer dereference'')))"

definition Txns :: "Transition \<Rightarrow> byte list list" where
  "Txns t = txns t"

text \<open>Recording a batch, one transaction after the other, as a proposer or a replay does.\<close>

fun Record_all :: "codec \<Rightarrow> Transition \<Rightarrow> byte list list \<Rightarrow> abort + Transition" where
  "Record_all cd t [] = Inr t"
| "Record_all cd t (b # bs) =
     (case Record cd t b of Inl e \<Rightarrow> Inl e | Inr (t', valid, success) \<Rightarrow> Record_all cd t' bs)"

text \<open>The units of a token that an account holds, and the sum over all accounts.\<close>

definition held :: "TokenID \<Rightarrow> Account \<Rightarrow> nat" where
  "held tok acc = (case Balances acc tok of None \<Rightarrow> 0 | Some b \<Rightarrow> unat (Available b) + unat (Pending b))"

definition total_units :: "TokenID \<Rightarrow> (Addr \<times> Account) list \<Rightarrow> nat" where
  "total_units tok accs = sum_list (map (\<lambda>(a, acc). held tok acc) accs)"

section \<open>The chain (package consensus)\<close>

text \<open>
  The consensus package's data types are not among the sources; the records carry the
  fields that chain.go and syncer.go read and write. A hash is the byte string of the
  32-byte array. Rounds are uint64 values; no arithmetic on them below can wrap, and they
  are natural numbers. A weight is a float64 that is only stored.
\<close>

type_synonym Hash = "byte list"
type_synonym Sig = "byte list"

record Block =
  Block_Owner :: Addr
  Block_Round :: nat
  Block_BlockProposal :: Hash
  Block_PrevBlock :: Hash
  Block_SysTxns :: "byte list list"
  StateRoot :: Hash
  NotarizationSig :: Sig

record BlockProposal =
  BP_Round :: nat
  BP_PrevBlock :: Hash
  BP_Owner :: Addr
  BP_SysTxns :: "byte list list"
  BP_Data :: "byte list"
  OwnerSig :: Sig

record NtShare =
  Nt_Round :: nat
  Nt_BP :: Hash
  Nt_Owner :: Addr
  SigShare :: Sig

record bpNode =
  bpNode_BP :: Hash
  bpNode_Weight :: real

datatype blockNode =
  BlockNode (node_Block: Hash) (node_BP: Hash) (node_Weight: real)
    (blockChildren: "blockNode list") (bpChildren: "bpNode list")

datatype chain_error =
  ErrParentNotFound Hash nat
  | ErrInvalidTxnData
  | ErrInvalidTransactions
  | ErrFailedToApply
  | ErrInvalidStateRoot
  | ErrCanNotConnectToChain
  | ErrRequest string

text \<open>
  What the chain calls but does not define: hashing and encoding, the threshold
  signature scheme, the rlp decoder of a proposal's transaction batch, and the
  application's \<open>State\<close> and \<open>Transition\<close> interfaces (types \<open>'st\<close> and \<open>'tr\<close>).
  \<open>encodeBlock withSig b\<close> is \<open>b.Encode(withSig)\<close>. A decoder or the signature
  recovery returns \<open>None\<close> where the Go call returns an error.
\<close>

record ('st, 'tr) env =
  hashBlock :: "Block \<Rightarrow> Hash"
  hashBP :: "BlockProposal \<Rightarrow> Hash"
  hashNtShare :: "NtShare \<Rightarrow> Hash"
  SHA3 :: "byte list \<Rightarrow> Hash"
  encodeBlock :: "bool \<Rightarrow> Block \<Rightarrow> byte list"
  recoverNtSig :: "NtShare list \<Rightarrow> Sig option"
  sigVerify :: "Sig \<Rightarrow> PK \<Rightarrow> byte list \<Rightarrow> bool"
  decodeTxns :: "byte list \<Rightarrow> byte list list option"
  stTransition :: "'st \<Rightarrow> nat \<Rightarrow> 'tr"
  trRecord :: "'tr \<Rightarrow> byte list \<Rightarrow> 'tr \<times> bool \<times> bool"
  trStateHash :: "'tr \<Rightarrow> Hash"
  trCommit :: "'tr \<Rightarrow> 'st"

text \<open>
  The fields of \<open>Chain\<close> that the operations below touch. A Go map whose missing keys
  read as nil or as the empty slice is a partial map or a function into lists; a state
  that may be nil is an option. \<open>groups\<close> are the public keys of
  \<open>randomBeacon.groups\<close>; \<open>txnPool\<close> is the pool's content, from which \<open>Remove\<close>
  takes the transactions of a hash. The calls handed to goroutines (\<open>recvBPForNotary\<close>,
  \<open>Update\<close>, \<open>EndRound\<close>) leave the chain as it is and are not modelled.
\<close>

record ('st, 'sys) Chain =
  GroupThreshold :: int
  groups :: "PK list"
  txnPool :: "byte list list"
  finalized :: "Hash list"
  lastFinalizedState :: "'st option"
  lastFinalizedSysState :: "'sys option"
  fork :: "blockNode list"
  bpNotOnFork :: "bpNode list"
  unFinalizedState :: "Hash \<rightharpoonup> 'st"
  unFinalizedSysState :: "Hash \<rightharpoonup> 'sys"
  hashToBlock :: "Hash \<rightharpoonup> Block"
  hashToBP :: "Hash \<rightharpoonup> BlockProposal"
  hashToNtShare :: "Hash \<rightharpoonup> NtShare"
  bpToNtShares :: "Hash \<Rightarrow> NtShare list"
  bpNeedNotarize :: "Hash \<rightharpoonup> bool"

subsection \<open>The fork tree\<close>

fun maxHeight :: "blockNode list \<Rightarrow> nat" where
  "maxHeight [] = 0"
| "maxHeight (BlockNode b p w cs bs # ns) =
     (let h = maxHeight cs + 1; m = maxHeight ns in if m < h then h else m)"

text \<open>\<open>Chain.round\<close>, here \<open>chain_round\<close>.\<close>

definition chain_round :: "('st, 'sys) Chain \<Rightarrow> nat" where
  "chain_round c = length (finalized c) + maxHeight (fork c)"

text \<open>
  \<open>FinalizedRound\<close> is \<open>uint64(len(finalized) - 1)\<close>. \<open>finalized\<close> holds the genesis
  block from \<open>NewChain\<close> on; on an empty list the conversion of -1 would wrap.
\<close>

definition FinalizedRound :: "('st, 'sys) Chain \<Rightarrow> nat" where
  "FinalizedRound c = (if finalized c = [] then 2 ^ 64 - 1 else length (finalized c) - 1)"

text \<open>
  \<open>findPrevBlock\<close> walks the nodes in order and each node's block children before
  its next sibling. It returns the node and the index the node has among its siblings;
  \<open>findPrevBlock_at i\<close> is the loop from index \<open>i\<close> on.
\<close>

fun findPrevBlock_at :: "nat \<Rightarrow> Hash \<Rightarrow> blockNode list \<Rightarrow> blockNode option \<times> nat" where
  "findPrevBlock_at i prevBlock [] = (None, 0)"
| "findPrevBlock_at i prevBlock (BlockNode b p w cs bs # ns) =
     (if b = prevBlock then (Some (BlockNode b p w cs bs), i)
      else case findPrevBlock_at 0 prevBlock cs of
             (Some n, idx) \<Rightarrow> (Some n, idx)
           | (None, _) \<Rightarrow> findPrevBlock_at (Suc i) prevBlock ns)"

definition findPrevBlock :: "Hash \<Rightarrow> blockNode list \<Rightarrow> blockNode option \<times> nat" where
  "findPrevBlock prevBlock ns = findPrevBlock_at 0 prevBlock ns"

text \<open>
  The source mutates the node through the pointer that \<open>findPrevBlock\<close> returned.
  \<open>updatePrevBlock h f\<close> rebuilds the tree with \<open>f\<close> applied to that node: the
  first one in the same walk.
\<close>

fun updatePrevBlock :: "Hash \<Rightarrow> (blockNode \<Rightarrow> blockNode) \<Rightarrow> blockNode list \<Rightarrow> blockNode list" where
  "updatePrevBlock prevBlock f [] = []"
| "updatePrevBlock prevBlock f (BlockNode b p w cs bs # ns) =
     (if b = prevBlock then f (BlockNode b p w cs bs) # ns
      else case findPrevBlock_at 0 prevBlock cs of
             (Some n, idx) \<Rightarrow> BlockNode b p w (updatePrevBlock prevBlock f cs) bs # ns
           | (None, _) \<Rightarrow> BlockNode b p w cs bs # updatePrevBlock prevBlock f ns)"

subsection \<open>addBP\<close>

text \<open>
  \<open>addBP\<close> returns \<open>(added, error)\<close>; the model returns the chain with them. Indexing
  an empty \<open>finalized\<close> would panic.
\<close>

definition addBP ::
  "('st, 'tr) env \<Rightarrow> ('st, 'sys) Chain \<Rightarrow> BlockProposal \<Rightarrow> real
     \<Rightarrow> abort + (('st, 'sys) Chain \<times> bool \<times> chain_error option)" where
  "addBP E c bp weight =
     (let h = hashBP E bp in
      if hashToBP c h \<noteq> None then Inr (c, False, None)
      else
        let notarized = fst (findPrevBlock (BP_PrevBlock bp) (fork c)) in
        if notarized = None \<and> finalized c = [] then Inl (Panic ''index out of range'')
        else if notarized = None \<and> last (finalized c) \<noteq> BP_PrevBlock bp
          then Inr (c, False, Some (ErrParentNotFound (BP_PrevBlock bp) (BP_Round bp)))
        else
          let c1 = c\<lparr>hashToBP := (hashToBP c)(h \<mapsto> bp)\<rparr>;
              u = \<lparr>bpNode_BP = h, bpNode_Weight = weight\<rparr>;
              c2 = (if notarized \<noteq> None
                    then c1\<lparr>fork := updatePrevBlock (BP_PrevBlock bp)
                            (\<lambda>n. BlockNode (node_Block n) (node_BP n) (node_Weight n)
                                    (blockChildren n) (bpChildren n @ [u]))
                            (fork c1)\<rparr>
                    else c1\<lparr>bpNotOnFork := bpNotOnFork c1 @ [u]\<rparr>);
              c3 = c2\<lparr>bpNeedNotarize := (bpNeedNotarize c2)(h \<mapsto> True)\<rparr>
          in Inr (c3, True, None))"

subsection \<open>getTransition and blockToState\<close>

text \<open>The loop of \<open>getTransition\<close>: it stops at the first transaction that is not valid and successful.\<close>

fun record_txns :: "('st, 'tr) env \<Rightarrow> 'tr \<Rightarrow> byte list list \<Rightarrow> 'tr \<times> chain_error option" where
  "record_txns E tr [] = (tr, None)"
| "record_txns E tr (t # ts) =
     (case trRecord E tr t of (tr', valid, success) \<Rightarrow>
        if \<not> valid \<or> \<not> success then (tr', Some ErrFailedToApply)
        else record_txns E tr' ts)"

definition getTransition ::
  "('st, 'tr) env \<Rightarrow> 'st \<Rightarrow> byte list \<Rightarrow> nat \<Rightarrow> 'tr \<times> chain_error option" where
  "getTransition E state txnData rnd =
     (let tr = stTransition E state rnd in
      if length txnData = 0 then (tr, None)
      else case decodeTxns E txnData of
             None \<Rightarrow> (tr, Some ErrInvalidTransactions)
           | Some ts \<Rightarrow> record_txns E tr ts)"

definition blockToState :: "('st, 'sys) Chain \<Rightarrow> Hash \<Rightarrow> abort + 'st option" where
  "blockToState c h =
     (if finalized c = [] then Inl (Panic ''index out of range'')
      else if h = last (finalized c) then Inr (lastFinalizedState c)
      else Inr (unFinalizedState c h))"

subsection \<open>addNtShare\<close>

text \<open>
  \<open>addNtShare\<close> returns \<open>(b, added, success)\<close>, the block being nil until the
  threshold is reached; the model returns the chain with them. \<open>GroupThreshold\<close> and
  \<open>groupID\<close> are Go ints. The signature is checked on \<open>b.Encode(false)\<close> of the
  block before its \<open>NotarizationSig\<close> is set.
\<close>

definition notarized_block :: "('st, 'tr) env \<Rightarrow> BlockProposal \<Rightarrow> 'tr \<Rightarrow> Block" where
  "notarized_block E bp tr =
     \<lparr>Block_Owner = BP_Owner bp, Block_Round = BP_Round bp, Block_BlockProposal = hashBP E bp,
      Block_PrevBlock = BP_PrevBlock bp, Block_SysTxns = BP_SysTxns bp,
      StateRoot = trStateHash E tr, NotarizationSig = []\<rparr>"

definition addNtShare ::
  "('st, 'tr) env \<Rightarrow> ('st, 'sys) Chain \<Rightarrow> NtShare \<Rightarrow> int
     \<Rightarrow> abort + (('st, 'sys) Chain \<times> Block option \<times> bool \<times> bool)" where
  "addNtShare E c n groupID =
     (case hashToBP c (Nt_BP n) of
        None \<Rightarrow> Inr (c, None, False, False)
      | Some bp \<Rightarrow>
          if bpNeedNotarize c (Nt_BP n) \<noteq> Some True then Inr (c, None, False, True)
          else if \<exists>s \<in> set (bpToNtShares c (Nt_BP n)). Nt_Owner s = Nt_Owner n
            then Inr (c, None, False, True)
          else
            let shares = bpToNtShares c (Nt_BP n) @ [n];
                c1 = c\<lparr>bpToNtShares := (bpToNtShares c)(Nt_BP n := shares)\<rparr>
            in
            if int (length shares) \<ge> GroupThreshold c1 then
              (case recoverNtSig E shares of
                 None \<Rightarrow> Inl (Panic ''recoverNtSig'')
               | Some sig \<Rightarrow>
              (case blockToState c1 (BP_PrevBlock bp) of
                 Inl e \<Rightarrow> Inl e
               | Inr None \<Rightarrow> Inl (Panic ''TODO'')
               | Inr (Some state) \<Rightarrow>
              (case getTransition E state (BP_Data bp) (BP_Round bp) of
                 (tr, Some err) \<Rightarrow> Inl (Panic ''TODO'')
               | (tr, None) \<Rightarrow>
                  let b = notarized_block E bp tr;
                      msg = encodeBlock E False b
                  in
                  if groupID < 0 \<or> int (length (groups c1)) \<le> groupID
                    then Inl (Panic ''index out of range'')
                  else if \<not> sigVerify E sig (groups c1 ! nat groupID) msg
                    then Inl (Panic ''impossible: group sig not valid'')
                  else
                    let b' = b\<lparr>NotarizationSig := sig\<rparr>;
                        c2 = c1\<lparr>bpNeedNotarize := (bpNeedNotarize c1)(Nt_BP n := None)\<rparr>;
                        c3 = c2\<lparr>hashToNtShare :=
                               foldl (\<lambda>m share. m(hashNtShare E share := None)) (hashToNtShare c2) shares\<rparr>;
                        c4 = c3\<lparr>bpToNtShares := (bpToNtShares c3)(Nt_BP n := [])\<rparr>
                    in Inr (c4, Some b', True, True))))
            else
              Inr (c1\<lparr>hashToNtShare := (hashToNtShare c1)(hashNtShare E n \<mapsto> n)\<rparr>, None, True, True))"

subsection \<open>finalize and addBlock\<close>

definition finalize :: "('st, 'sys) Chain \<Rightarrow> nat \<Rightarrow> abort + ('st, 'sys) Chain" where
  "finalize c rnd =
     (let count = length (finalized c) in
      if rnd < count then Inr c
      else
        let depth = rnd - count;
            c1 = c\<lparr>bpNotOnFork := []\<rparr>
        in
        if depth = 0 then
          (if length (fork c1) > 1 then Inr c1
           else case fork c1 of
                  [] \<Rightarrow> Inl (Panic ''index out of range'')
                | f # _ \<Rightarrow>
                    Inr (c1\<lparr>finalized := finalized c1 @ [node_Block f],
                            lastFinalizedState := unFinalizedState c1 (node_Block f),
                            unFinalizedState := (unFinalizedState c1)(node_Block f := None),
                            lastFinalizedSysState := unFinalizedSysState c1 (node_Block f),
                            unFinalizedSysState := (unFinalizedSysState c1)(node_Block f := None),
                            fork := blockChildren f,
                            bpNotOnFork := bpChildren f\<rparr>))
        else Inl (Panic ''not under normal operation, not implemented''))"

text \<open>
  The loop over \<open>bpNotOnFork\<close> keeps the last index whose proposal is the block's;
  \<open>None\<close> is the source's \<open>-1\<close>.
\<close>

fun last_index_of :: "Hash \<Rightarrow> nat \<Rightarrow> bpNode list \<Rightarrow> nat option \<Rightarrow> nat option" where
  "last_index_of bp i [] removeIdx = removeIdx"
| "last_index_of bp i (e # es) removeIdx =
     last_index_of bp (Suc i) es (if bpNode_BP e = bp then Some i else removeIdx)"

text \<open>\<open>append(s[:i], s[i+1:]...)\<close>; slicing panics unless \<open>i + 1 \<le> len(s)\<close>.\<close>

definition remove_at :: "nat \<Rightarrow> 'a list \<Rightarrow> abort + 'a list" where
  "remove_at i xs =
     (if i + 1 > length xs then Inl (Panic ''slice bounds out of range'')
      else Inr (take i xs @ drop (i + 1) xs))"

text \<open>The second half of \<open>addBlock\<close>: after the block is in the tree.\<close>

definition addBlock_finish ::
  "('st, 'tr) env \<Rightarrow> ('st, 'sys) Chain \<Rightarrow> Hash \<Rightarrow> Block \<Rightarrow> BlockProposal
     \<Rightarrow> abort + (('st, 'sys) Chain \<times> bool \<times> chain_error option)" where
  "addBlock_finish E c3 h b bp =
     (let c4 = c3\<lparr>hashToBlock := (hashToBlock c3)(h \<mapsto> b),
                  bpNeedNotarize := (bpNeedNotarize c3)(Block_BlockProposal b := None),
                  bpToNtShares := (bpToNtShares c3)(Block_BlockProposal b := [])\<rparr>;
          rnd = chain_round c4
      in case (if rnd > 3 then finalize c4 (rnd - 3) else Inr c4) of
           Inl e \<Rightarrow> Inl e
         | Inr c5 \<Rightarrow>
             if length (BP_Data bp) > 0 then
               (case decodeTxns E (BP_Data bp) of
                  None \<Rightarrow> Inr (c5, False, Some ErrInvalidTxnData)
                | Some ts \<Rightarrow>
                    Inr (c5\<lparr>txnPool := foldl (\<lambda>pool txn. filter (\<lambda>x. SHA3 E x \<noteq> SHA3 E txn) pool)
                                           (txnPool c5) ts\<rparr>, True, None))
             else Inr (c5, True, None))"

definition addBlock ::
  "('st, 'tr) env \<Rightarrow> ('st, 'sys) Chain \<Rightarrow> Block \<Rightarrow> BlockProposal \<Rightarrow> 'st \<Rightarrow> real
     \<Rightarrow> abort + (('st, 'sys) Chain \<times> bool \<times> chain_error option)" where
  "addBlock E c b bp s weight =
     (let h = hashBlock E b in
      if hashToBlock c h \<noteq> None then Inr (c, False, None)
      else
        let nt = BlockNode h (Block_BlockProposal b) weight [] [];
            c1 = c\<lparr>unFinalizedState := (unFinalizedState c)(h \<mapsto> s)\<rparr>
        in
        if finalized c1 = [] then Inl (Panic ''index out of range'')
        else
          let prevFinalized = (BP_PrevBlock bp = last (finalized c1));
              prevSysState = (if prevFinalized then lastFinalizedSysState c1
                              else unFinalizedSysState c1 (BP_PrevBlock bp))
          in
          if \<not> prevFinalized \<and> prevSysState = None then Inl (Panic ''TODO'')
          else
            let c2 = c1\<lparr>unFinalizedSysState := (unFinalizedSysState c1)(h := prevSysState)\<rparr> in
            if prevFinalized then
              (let c3 = c2\<lparr>fork := fork c2 @ [nt]\<rparr> in
               case last_index_of (node_BP nt) 0 (bpNotOnFork c3) None of
                 None \<Rightarrow> addBlock_finish E c3 h b bp
               | Some removeIdx \<Rightarrow>
                   (case remove_at removeIdx (bpNotOnFork c3) of
                      Inl e \<Rightarrow> Inl e
                    | Inr rest \<Rightarrow> addBlock_finish E (c3\<lparr>bpNotOnFork := rest\<rparr>) h b bp))
            else
              (case findPrevBlock (BP_PrevBlock bp) (fork c2) of
                 (None, _) \<Rightarrow> Inl (Panic ''nil pointer dereference'')
               | (Some prev, removeIdx) \<Rightarrow>
                   (case remove_at removeIdx (bpChildren prev) of
                      Inl e \<Rightarrow> Inl e
                    | Inr rest \<Rightarrow>
                        addBlock_finish E
                          (c2\<lparr>fork := updatePrevBlock (BP_PrevBlock bp)
                                 (\<lambda>n. BlockNode (node_Block n) (node_BP n) (node_Weight n)
                                         (blockChildren n @ [nt]) rest)
                                 (fork c2)\<rparr>) h b bp)))"

subsection \<open>The syncer (syncer.go)\<close>

text \<open>
  What a peer answers: the block and the block proposal it returns for a hash, or the
  request's error. The answers do not change during one synchronisation, so fetching the
  proposal in a goroutine while the ancestors are synchronised is the same as fetching it
  afterwards.
\<close>

record requester =
  RequestBlock :: "Hash \<Rightarrow> chain_error + Block"
  RequestBlockProposal :: "Hash \<Rightarrow> chain_error + BlockProposal"

text \<open>
  \<open>syncBlockAndConnectToChain\<close> returns \<open>(block, state, err)\<close>; the model returns the
  chain with the error or the pair. The syncer logs the errors of \<open>addBP\<close> and
  \<open>addBlock\<close> and goes on. \<open>validate_and_connect\<close> is the part after the parent's
  state is known: the proposal is awaited, the transition rebuilt and compared with the
  block's state root, and proposal and block are added. The recursion is on
  \<open>round - 1\<close> and is only reached with \<open>round\<close> above \<open>FinalizedRound()\<close> and not 1.
\<close>

definition validate_and_connect ::
  "('st, 'tr) env \<Rightarrow> requester \<Rightarrow> ('st, 'sys) Chain \<Rightarrow> Block \<Rightarrow> 'st option
     \<Rightarrow> abort + (('st, 'sys) Chain \<times> (chain_error + (Block \<times> 'st option)))" where
  "validate_and_connect E rq c1 b state =
     (case RequestBlockProposal rq (Block_BlockProposal b) of
        Inl e \<Rightarrow> Inr (c1, Inl e)
      | Inr bp \<Rightarrow>
         (case state of
            None \<Rightarrow> Inl (Panic ''nil pointer dereference'')
          | Some st \<Rightarrow>
             (case getTransition E st (BP_Data bp) (BP_Round bp) of
                (tr, Some err) \<Rightarrow> Inr (c1, Inl err)
              | (tr, None) \<Rightarrow>
                  if trStateHash E tr \<noteq> StateRoot b then Inr (c1, Inl ErrInvalidStateRoot)
                  else
                    (case addBP E c1 bp 0 of
                       Inl e \<Rightarrow> Inl e
                     | Inr (c2, added, err) \<Rightarrow>
                         let state' = trCommit E tr in
                         (case addBlock E c2 b bp state' 0 of
                            Inl e \<Rightarrow> Inl e
                          | Inr (c3, added', err') \<Rightarrow> Inr (c3, Inr (b, Some state')))))))"

function syncBlockAndConnectToChain ::
  "('st, 'tr) env \<Rightarrow> requester \<Rightarrow> ('st, 'sys) Chain \<Rightarrow> Hash \<Rightarrow> nat
     \<Rightarrow> abort + (('st, 'sys) Chain \<times> (chain_error + (Block \<times> 'st option)))" where
  "syncBlockAndConnectToChain E rq c hash rnd =
     (case hashToBlock c hash of
        Some b \<Rightarrow>
          (case blockToState c hash of Inl e \<Rightarrow> Inl e | Inr st \<Rightarrow> Inr (c, Inr (b, st)))
      | None \<Rightarrow>
          if rnd \<le> FinalizedRound c then Inr (c, Inl ErrCanNotConnectToChain)
          else
            (case RequestBlock rq hash of
               Inl e \<Rightarrow> Inr (c, Inl e)
             | Inr b \<Rightarrow>
                 if rnd = 1 then
                   (if finalized c = [] then Inl (Panic ''index out of range'')
                    else if Block_PrevBlock b \<noteq> hd (finalized c)
                      then Inr (c, Inl ErrCanNotConnectToChain)
                    else (case blockToState c (Block_PrevBlock b) of
                            Inl e \<Rightarrow> Inl e
                          | Inr state \<Rightarrow> validate_and_connect E rq c b state))
                 else
                   (case syncBlockAndConnectToChain E rq c (Block_PrevBlock b) (rnd - 1) of
                      Inl e \<Rightarrow> Inl e
                    | Inr (c', Inl err) \<Rightarrow> Inr (c', Inl err)
                    | Inr (c', Inr (pb, state)) \<Rightarrow> validate_and_connect E rq c' b state)))"
  by pat_completeness auto
termination
  by (relation "measure (\<lambda>(E, rq, c, hash, rnd). rnd)") auto

definition SyncBlock ::
  "('st, 'tr) env \<Rightarrow> requester \<Rightarrow> ('st, 'sys) Chain \<Rightarrow> Hash \<Rightarrow> nat
     \<Rightarrow> abort + (('st, 'sys) Chain \<times> (chain_error + Block))" where
  "SyncBlock E rq c hash rnd =
     (case syncBlockAndConnectToChain E rq c hash rnd of
        Inl e \<Rightarrow> Inl e
      | Inr (c', Inl err) \<Rightarrow> Inr (c', Inl err)
      | Inr (c', Inr (b, st)) \<Rightarrow> Inr (c', Inr b))"

declare syncBlockAndConnectToChain.simps [simp del]

subsection \<open>A chain for the scenarios\<close>

text \<open>
  A toy instance of the interfaces, for evaluating the scenarios: a hash is a tag byte
  before the hashed content, a state is the list of transactions applied so far and its
  root their concatenation, every byte of a proposal's data is one transaction, and a
  group signature is the group key followed by the signed message, recovered by
  concatenating the shares.
\<close>

definition scenario_env :: "(byte list list, byte list list) env" where
  "scenario_env = \<lparr>
     hashBlock = (\<lambda>b. 66 # Block_BlockProposal b),
     hashBP = (\<lambda>bp. 80 # BP_Data bp),
     hashNtShare = (\<lambda>n. 78 # Nt_Owner n @ Nt_BP n),
     SHA3 = (\<lambda>x. x),
     encodeBlock = (\<lambda>withSig b. StateRoot b @ (if withSig then NotarizationSig b else [])),
     recoverNtSig = (\<lambda>shares. if shares = [] then None else Some (concat (map SigShare shares))),
     sigVerify = (\<lambda>sig pk msg. sig = pk @ msg),
     decodeTxns = (\<lambda>d. Some (map (\<lambda>x. [x]) d)),
     stTransition = (\<lambda>st r. st),
     trRecord = (\<lambda>tr t. (tr @ [t], True, True)),
     trStateHash = concat,
     trCommit = (\<lambda>tr. tr)\<rparr>"

definition genesis_block :: Block where
  "genesis_block = \<lparr>Block_Owner = [], Block_Round = 0, Block_BlockProposal = [], Block_PrevBlock = [],
     Block_SysTxns = [], StateRoot = [], NotarizationSig = []\<rparr>"

definition scenario_chain :: "(byte list list, unit) Chain" where
  "scenario_chain = \<lparr>GroupThreshold = 3, groups = [[9]], txnPool = [[7], [5]],
     finalized = [[0]], lastFinalizedState = Some [], lastFinalizedSysState = Some (),
     fork = [], bpNotOnFork = [], unFinalizedState = Map.empty, unFinalizedSysState = Map.empty,
     hashToBlock = [[0] \<mapsto> genesis_block], hashToBP = Map.empty, hashToNtShare = Map.empty,
     bpToNtShares = (\<lambda>_. []), bpNeedNotarize = Map.empty\<rparr>"

definition bp1 :: BlockProposal where
  "bp1 = \<lparr>BP_Round = 1, BP_PrevBlock = [0], BP_Owner = [1], BP_SysTxns = [], BP_Data = [7, 8], OwnerSig = []\<rparr>"

definition nt_share :: "Addr \<Rightarrow> Sig \<Rightarrow> NtShare" where
  "nt_share owner sg = \<lparr>Nt_Round = 1, Nt_BP = [80, 7, 8], Nt_Owner = owner, SigShare = sg\<rparr>"

definition block1 :: Block where
  "block1 = \<lparr>Block_Owner = [1], Block_Round = 1, Block_BlockProposal = [80, 7, 8], Block_PrevBlock = [0],
     Block_SysTxns = [], StateRoot = [7, 8], NotarizationSig = [9, 7, 8]\<rparr>"

text \<open>Scenario E: the proposal \<open>bp1\<close> is on the chain and two shares of it are stored.\<close>

definition scenarioE_chain :: "(byte list list, unit) Chain" where
  "scenarioE_chain = scenario_chain\<lparr>
     bpNotOnFork := [\<lparr>bpNode_BP = [80, 7, 8], bpNode_Weight = 0\<rparr>],
     hashToBP := [[80, 7, 8] \<mapsto> bp1],
     hashToNtShare := [[78, 11, 80, 7, 8] \<mapsto> nt_share [11] [9], [78, 12, 80, 7, 8] \<mapsto> nt_share [12] [7]],
     bpToNtShares := (\<lambda>_. [])([80, 7, 8] := [nt_share [11] [9], nt_share [12] [7]]),
     bpNeedNotarize := [[80, 7, 8] \<mapsto> True]\<rparr>"

text \<open>
  Scenario F: the peer serves \<open>block1\<close>, whose state root is right, its child
  \<open>block2\<close> and another first-round block \<open>block3\<close>, both with a state root that is
  not the recomputed one.
\<close>

definition bp2 :: BlockProposal where
  "bp2 = \<lparr>BP_Round = 2, BP_PrevBlock = [66, 80, 7, 8], BP_Owner = [2], BP_SysTxns = [], BP_Data = [5], OwnerSig = []\<rparr>"

definition block2 :: Block where
  "block2 = \<lparr>Block_Owner = [2], Block_Round = 2, Block_BlockProposal = [80, 5],
     Block_PrevBlock = [66, 80, 7, 8], Block_SysTxns = [], StateRoot = [6, 6, 6], NotarizationSig = []\<rparr>"

definition bp3 :: BlockProposal where
  "bp3 = \<lparr>BP_Round = 1, BP_PrevBlock = [0], BP_Owner = [2], BP_SysTxns = [], BP_Data = [4], OwnerSig = []\<rparr>"

definition block3 :: Block where
  "block3 = \<lparr>Block_Owner = [2], Block_Round = 1, Block_BlockProposal = [80, 4],
     Block_PrevBlock = [0], Block_SysTxns = [], StateRoot = [6, 6, 6], NotarizationSig = []\<rparr>"

definition scenarioF_requester :: requester where
  "scenarioF_requester = \<lparr>
     RequestBlock = (\<lambda>h. if h = [66, 80, 7, 8] then Inr block1
                         else if h = [66, 80, 5] then Inr block2
                         else if h = [66, 80, 4] then Inr block3
                         else Inl (ErrRequest ''not found'')),
     RequestBlockProposal = (\<lambda>h. if h = [80, 7, 8] then Inr bp1
                         else if h = [80, 5] then Inr bp2
                         else if h = [80, 4] then Inr bp3
                         else Inl (ErrRequest ''not found''))\<rparr>"

subsection \<open>Well-formed account stores\<close>

text \<open>Every address occurs once, and an account is stored under the address of its key.\<close>

definition store_ok :: "codec \<Rightarrow> (Addr \<times> Account) list \<Rightarrow> bool" where
  "store_ok cd accs \<longleftrightarrow> distinct (map fst accs) \<and> (\<forall>(a, acc) \<in> set accs. addrOf cd (PK acc) = a)"

definition balance_of :: "codec \<Rightarrow> 'a state_scheme \<Rightarrow> PK \<Rightarrow> TokenID \<Rightarrow> Balance option" where
  "balance_of cd s pk tok = (case Account_of s (addrOf cd pk) of None \<Rightarrow> None | Some acc \<Rightarrow> Balances acc tok)"

subsection \<open>The scenarios of the specification\<close>

definition P1 :: PK where "P1 = [1]"
definition P2 :: PK where "P2 = [2]"
definition P3 :: PK where "P3 = [3]"

definition ACME :: TokenInfo where
  "ACME = \<lparr>Symbol = ''ACME'', Decimals = 2, TotalUnits = 1000000\<rparr>"

definition ACME_BNB :: MarketSymbol where
  "ACME_BNB = \<lparr>Base = 1, Quote = 0\<rparr>"

definition sell_order :: PlaceOrderTxn where
  "sell_order = \<lparr>SellSide = True, Quant = 1000, Price = 500000000, ExpireRound = 100, Market = ACME_BNB\<rparr>"

text \<open>
  A codec for the scenarios: an address is its key, and the wire bytes are looked up in a
  table. \<open>[1]\<close> sends 10000 ACME from P1 to P2, \<open>[2]\<close> places the sell order of
  P1, \<open>[4]\<close> sends 10000 ACME from P1 to P3 with nonce slot 0 at value
  9, \<open>[5]\<close> is the same transfer with nonce value 0. Any other byte string fails to
  decode. No scenario places a buy-side order, and the buy-side amount is set to 0.
\<close>

definition scenario_codec :: codec where
  "scenario_codec = \<lparr>addrOf = (\<lambda>pk. pk),
     decodeTxn = map_of
       [([1], \<lparr>T = SendToken, Data = [10], NonceIdx = 0, NonceValue = 0, Owner = P1, Sig = []\<rparr>),
        ([2], \<lparr>T = PlaceOrder, Data = [11], NonceIdx = 0, NonceValue = 0, Owner = P1, Sig = []\<rparr>),
        ([4], \<lparr>T = SendToken, Data = [13], NonceIdx = 0, NonceValue = 9, Owner = P1, Sig = []\<rparr>),
        ([5], \<lparr>T = SendToken, Data = [13], NonceIdx = 0, NonceValue = 0, Owner = P1, Sig = []\<rparr>)],
     decodePlaceOrderTxn = map_of [([11], sell_order)],
     decodeSendTokenTxn = map_of
       [([10], \<lparr>SendTokenID = 1, To = P2, SendQuant = 10000\<rparr>),
        ([13], \<lparr>SendTokenID = 1, To = P3, SendQuant = 10000\<rparr>)],
     buyQuant = (\<lambda>quant price. 0)\<rparr>"

text \<open>What genesis gives each of two recipients: half of the BNB and half of the ACME supply.\<close>

definition scenarioA_balances :: "TokenID \<rightharpoonup> Balance" where
  "scenarioA_balances = [0 \<mapsto> \<lparr>Available = 10000000000000000, Pending = 0\<rparr>,
                  1 \<mapsto> \<lparr>Available = 500000, Pending = 0\<rparr>]"

definition scenarioA :: Transition where
  "scenarioA = newTransition (CreateGenesisState scenario_codec [P1, P2] [ACME])"

text \<open>Scenario D: the state of scenario A with P1's nonce slot 0 at counter 7.\<close>

definition scenarioD :: Transition where
  "scenarioD = UpdateAccount scenario_codec scenarioA
     ((genesis_account 2 (genesis_tokens [ACME]) P1)\<lparr>NonceVec := [7]\<rparr>)"

section \<open>Byte-level lemmas\<close>

lemma low_byte_split:
  fixes w :: uint64
  shows "ucast (ucast w :: byte) OR push_bit 8 (drop_bit 8 w) = w"
proof (rule bit_word_eqI)
  fix n assume "n < LENGTH(64)"
  then show "bit (ucast (ucast w :: byte) OR push_bit 8 (drop_bit 8 w)) n = bit w n"
    by (cases "n < 8") (simp_all add: bit_simps not_less)
qed

lemma top_byte_ucast:
  fixes w :: uint64
  shows "ucast (ucast (drop_bit 56 w) :: byte) = drop_bit 56 w"
proof (rule bit_word_eqI)
  fix n assume "n < LENGTH(64)"
  then show "bit (ucast (ucast (drop_bit 56 w) :: byte) :: uint64) n = bit (drop_bit 56 w) n"
    using bit_imp_le_length [of w "56 + n"]
    by (cases "n < 8") (auto simp add: bit_simps not_less)
qed

lemma byte_step:
  fixes v :: uint64
  shows "push_bit k (ucast (ucast (drop_bit k v) :: byte)) OR push_bit (k + 8) (drop_bit (k + 8) v)
      = push_bit k (drop_bit k v)"
proof -
  have "push_bit k (ucast (ucast (drop_bit k v) :: byte)) OR push_bit (k + 8) (drop_bit (k + 8) v)
      = push_bit k (ucast (ucast (drop_bit k v) :: byte) OR push_bit 8 (drop_bit 8 (drop_bit k v)))"
    by (simp add: push_bit_or push_bit_push_bit drop_bit_drop_bit add.commute)
  then show ?thesis
    by (simp only: low_byte_split)
qed

lemma le64_bytes:
  fixes v :: uint64
  shows "ucast (ucast v :: byte) OR push_bit 8 (ucast (ucast (drop_bit 8 v) :: byte))
     OR push_bit 16 (ucast (ucast (drop_bit 16 v) :: byte))
     OR push_bit 24 (ucast (ucast (drop_bit 24 v) :: byte))
     OR push_bit 32 (ucast (ucast (drop_bit 32 v) :: byte))
     OR push_bit 40 (ucast (ucast (drop_bit 40 v) :: byte))
     OR push_bit 48 (ucast (ucast (drop_bit 48 v) :: byte))
     OR push_bit 56 (ucast (ucast (drop_bit 56 v) :: byte)) = v"
proof -
  define B where "B k = push_bit k (ucast (ucast (drop_bit k v) :: byte) :: uint64)" for k
  define R where "R k = push_bit k (drop_bit k v)" for k
  have s: "B k OR R (k + 8) = R k" for k
    unfolding B_def R_def by (rule byte_step)
  have "B 56 = R 56"
    unfolding B_def R_def by (simp only: top_byte_ucast)
  then have "B 48 OR B 56 = R 48"
    using s [of 48] by simp
  then have "B 40 OR (B 48 OR B 56) = R 40"
    using s [of 40] by simp
  then have "B 32 OR (B 40 OR (B 48 OR B 56)) = R 32"
    using s [of 32] by simp
  then have "B 24 OR (B 32 OR (B 40 OR (B 48 OR B 56))) = R 24"
    using s [of 24] by simp
  then have "B 16 OR (B 24 OR (B 32 OR (B 40 OR (B 48 OR B 56)))) = R 16"
    using s [of 16] by simp
  then have "B 8 OR (B 16 OR (B 24 OR (B 32 OR (B 40 OR (B 48 OR B 56))))) = R 8"
    using s [of 8] by simp
  then have "ucast (ucast v :: byte) OR (B 8 OR (B 16 OR (B 24 OR (B 32 OR (B 40 OR (B 48 OR B 56)))))) = v"
    using low_byte_split [of v] by (simp add: R_def)
  then show ?thesis
    by (simp add: B_def ac_simps)
qed

lemma length_PutUint64 [simp]: "length (PutUint64 b v) = length b"
  by (simp add: PutUint64_def)

lemma Uint64_PutUint64: "8 \<le> length b \<Longrightarrow> Uint64 (PutUint64 b v @ r) = v"
  by (cases "b = []") (simp_all add: Uint64_def PutUint64_def nth_append le64_bytes)

lemma Uint64_PutUint64': "8 \<le> length b \<Longrightarrow> Uint64 (PutUint64 b v) = v"
  using Uint64_PutUint64 [of b v "[]"] by simp

lemma length_Encode: "length (Encode m) = 128"
  by (simp add: Encode_def make_bytes_def Let_def)

section \<open>Transitions: failure, conservation, genesis\<close>

lemma placeOrder_fail_unchanged:
  "placeOrder cd t owner p = (t', False) \<Longrightarrow> t' = t"
  by (auto simp: placeOrder_def Let_def split: option.splits if_splits prod.splits)

lemma sendToken_fail_unchanged:
  "sendToken cd t owner p = (t', False) \<Longrightarrow> t' = t"
  by (auto simp: sendToken_def Let_def split: option.splits if_splits)

lemma Record_fail_unchanged:
  "Record cd t b = Inr (t', valid, False) \<Longrightarrow> t' = t"
  by (auto simp: Record_def split: prod.splits option.splits if_splits sum.splits
      dest: placeOrder_fail_unchanged sendToken_fail_unchanged)

lemma validateNonce_ready: "validateNonce s txn = (acc, ready, valid) \<Longrightarrow> valid \<Longrightarrow> ready"
  by (auto simp: validateNonce_def split: option.splits)

lemma validate_owner:
  "validateSigAndNonce cd s b = (Some txn, Some acc, ready, valid) \<Longrightarrow> Account_of s (Owner txn) = Some acc"
  by (auto simp: validateSigAndNonce_def validateNonce_def split: option.splits)

lemma total_units_update_new:
  "a \<notin> fst ` set accs \<Longrightarrow> total_units k (AList.update a acc accs) = total_units k accs + held k acc"
  by (induction accs) (auto simp: total_units_def)

lemma total_units_update_old:
  "distinct (map fst accs) \<Longrightarrow> map_of accs a = Some old \<Longrightarrow>
   total_units k (AList.update a acc accs) + held k old = total_units k accs + held k acc"
  by (induction accs) (auto simp: total_units_def split: if_splits)

lemma held_le_total:
  "map_of accs a = Some acc \<Longrightarrow> held k acc \<le> total_units k accs"
  by (induction accs) (auto simp: total_units_def split: if_splits)

lemma set_update_subset:
  "set (AList.update k v al) \<subseteq> insert (k, v) (set al)"
  by (induction al) auto

lemma store_ok_update:
  "store_ok cd accs \<Longrightarrow> store_ok cd (AList.update (addrOf cd (PK acc)) acc accs)"
proof -
  assume ok: "store_ok cd accs"
  let ?a = "addrOf cd (PK acc)"
  have sub: "set (AList.update ?a acc accs) \<subseteq> insert (?a, acc) (set accs)"
    by (rule set_update_subset)
  have "distinct (map fst (AList.update ?a acc accs))"
    using ok by (simp add: store_ok_def distinct_update)
  moreover have "\<forall>(a, x) \<in> set (AList.update ?a acc accs). addrOf cd (PK x) = a"
    using ok sub unfolding store_ok_def by blast
  ultimately show ?thesis
    by (simp add: store_ok_def)
qed

lemma store_ok_lookup:
  "store_ok cd accs \<Longrightarrow> map_of accs a = Some acc \<Longrightarrow> addrOf cd (PK acc) = a"
  unfolding store_ok_def by (auto dest: map_of_SomeD)

lemma placeOrder_conserves:
  assumes ok: "store_ok cd (accounts t)"
    and own: "map_of (accounts t) a = Some owner"
    and bound: "\<And>k. total_units k (accounts t) < 2 ^ 64"
    and po: "placeOrder cd t owner p = (t', True)"
  shows "store_ok cd (accounts t') \<and> (\<forall>k. total_units k (accounts t') = total_units k (accounts t))"
proof -
  from po obtain sellQuant sell sb where
    sb: "Balances owner sell = Some sb" and lt: "sellQuant < Available sb"
    and t': "accounts t' = AList.update (addrOf cd (PK owner))
       (owner\<lparr>Balances := (Balances owner)(sell \<mapsto>
          sb\<lparr>Available := Available sb - sellQuant, Pending := Pending sb + sellQuant\<rparr>)\<rparr>) (accounts t)"
    by (auto simp: placeOrder_def Let_def UpdateAccount_def UpdatePendingOrder_def not_le
        split: option.splits if_splits prod.splits)
  let ?owner' = "owner\<lparr>Balances := (Balances owner)(sell \<mapsto>
          sb\<lparr>Available := Available sb - sellQuant, Pending := Pending sb + sellQuant\<rparr>)\<rparr>"
  have a: "addrOf cd (PK owner) = a"
    using ok own by (rule store_ok_lookup)
  have "held sell owner \<le> total_units sell (accounts t)"
    using own by (rule held_le_total)
  then have hb: "unat (Available sb) + unat (Pending sb) < 2 ^ 64"
    using bound [of sell] sb by (simp add: held_def)
  have q: "unat sellQuant < unat (Available sb)"
    using lt by (simp add: word_less_nat_alt)
  have sub: "unat (Available sb - sellQuant) = unat (Available sb) - unat sellQuant"
    using lt by (simp add: unat_sub word_le_less_eq)
  have add: "unat (Pending sb + sellQuant) = unat (Pending sb) + unat sellQuant"
    using hb q by (simp add: unat_add_lem [THEN iffD1])
  have held: "held k ?owner' = held k owner" for k
    using sb sub add q by (simp add: held_def)
  have "store_ok cd (accounts t')"
    using store_ok_update [OF ok, of ?owner'] by (simp add: t')
  moreover have "total_units k (accounts t') = total_units k (accounts t)" for k
    using total_units_update_old [of "accounts t" a owner k ?owner'] ok own held [of k]
    by (simp add: t' a store_ok_def)
  ultimately show ?thesis by blast
qed

lemma sendToken_conserves:
  assumes ok: "store_ok cd (accounts t)"
    and own: "map_of (accounts t) a = Some owner"
    and st: "sendToken cd t owner p = (t', True)"
  shows "store_ok cd (accounts t') \<and> (\<forall>k. total_units k (accounts t') = total_units k (accounts t))"
proof -
  let ?id = "SendTokenID p" and ?q = "SendQuant p" and ?to = "addrOf cd (To p)"
  from st obtain b where
    b: "Balances owner ?id = Some b" and nlt: "\<not> Available b < ?q" and nz: "?q \<noteq> 0"
    and new: "map_of (accounts t) ?to = None"
    by (auto simp: sendToken_def Let_def split: option.splits if_splits)
  have le: "?q \<le> Available b"
    using nlt by simp
  let ?toAcc = "\<lparr>PK = To p, Balances = [?id \<mapsto> \<lparr>Available = 0 + ?q, Pending = 0\<rparr>],
                   NonceVec = [], OrderMarkets = []\<rparr>"
  let ?owner' = "owner\<lparr>Balances := (Balances owner)(?id \<mapsto> b\<lparr>Available := Available b - ?q\<rparr>)\<rparr>"
  let ?accs1 = "AList.update ?to ?toAcc (accounts t)"
  have t': "accounts t' = AList.update (addrOf cd (PK owner)) ?owner' ?accs1"
    using st b nlt nz new by (auto simp add: sendToken_def Let_def UpdateAccount_def)
  have a: "addrOf cd (PK owner) = a"
    using ok own by (rule store_ok_lookup)
  have notin: "?to \<notin> fst ` set (accounts t)"
    using new by (simp add: map_of_eq_None_iff)
  have ne: "a \<noteq> ?to"
    using own new by auto
  have ok1: "store_ok cd ?accs1"
    using store_ok_update [OF ok, of ?toAcc] by simp
  have own1: "map_of ?accs1 a = Some owner"
    using own ne by (simp add: update_conv')
  have tot1: "total_units k ?accs1 = total_units k (accounts t) + held k ?toAcc" for k
    using notin by (rule total_units_update_new)
  have tot2: "total_units k (accounts t') + held k owner = total_units k ?accs1 + held k ?owner'" for k
    using total_units_update_old [of ?accs1 a owner k ?owner'] ok1 own1
    by (simp add: t' a store_ok_def)
  have sub: "unat (Available b - ?q) = unat (Available b) - unat ?q"
    using le by (simp add: unat_sub)
  have qle: "unat ?q \<le> unat (Available b)"
    using le by (simp add: word_le_nat_alt)
  have bal: "held k ?owner' + held k ?toAcc = held k owner" for k
    using b sub qle by (simp add: held_def)
  have "store_ok cd (accounts t')"
    using store_ok_update [OF ok1, of ?owner'] by (simp add: t')
  moreover have "total_units k (accounts t') = total_units k (accounts t)" for k
    using tot1 [of k] tot2 [of k] bal [of k] by simp
  ultimately show ?thesis by blast
qed

lemma Record_conserves:
  assumes ok: "store_ok cd (accounts t)"
    and bound: "\<And>k. total_units k (accounts t) < 2 ^ 64"
    and r: "Record cd t b = Inr (t', valid, success)"
  shows "store_ok cd (accounts t') \<and> (\<forall>k. total_units k (accounts t') = total_units k (accounts t))"
proof (cases success)
  case False
  with r have "Record cd t b = Inr (t', valid, False)" by simp
  then have "t' = t" by (rule Record_fail_unchanged)
  with ok show ?thesis by simp
next
  case True
  obtain txn acc ready v where vs: "validateSigAndNonce cd t b = (txn, acc, ready, v)"
    by (cases "validateSigAndNonce cd t b") auto
  from r True vs obtain txn' acc' where some: "txn = Some txn'" "acc = Some acc'"
    by (auto simp: Record_def split: if_splits option.splits)
  have own: "map_of (accounts t) (Owner txn') = Some acc'"
    using validate_owner [of cd t b txn' acc' ready v] vs some by (simp add: Account_of_def)
  from r True vs some consider
    (place) p t1 where "placeOrder cd t acc' p = (t1, True)" "t' = t1\<lparr>txns := txns t1 @ [b]\<rparr>"
  | (send) p t1 where "sendToken cd t acc' p = (t1, True)" "t' = t1\<lparr>txns := txns t1 @ [b]\<rparr>"
    by (auto simp: Record_def split: if_splits option.splits sum.splits prod.splits)
  then show ?thesis
  proof cases
    case place
    then show ?thesis
      using placeOrder_conserves [OF ok own bound, of p t1] by simp
  next
    case send
    then show ?thesis
      using sendToken_conserves [OF ok own, of p t1] by simp
  qed
qed

lemma Record_all_conserves:
  "store_ok cd (accounts t) \<Longrightarrow> (\<And>k. total_units k (accounts t) < 2 ^ 64) \<Longrightarrow>
   Record_all cd t bs = Inr t' \<Longrightarrow>
   store_ok cd (accounts t') \<and> (\<forall>k. total_units k (accounts t') = total_units k (accounts t))"
proof (induction bs arbitrary: t)
  case Nil
  then show ?case by simp
next
  case (Cons b bs)
  from Cons.prems(3) obtain t1 v s where r: "Record cd t b = Inr (t1, v, s)"
    and rest: "Record_all cd t1 bs = Inr t'"
    by (auto split: sum.splits prod.splits)
  have step: "store_ok cd (accounts t1) \<and> (\<forall>k. total_units k (accounts t1) = total_units k (accounts t))"
    using Record_conserves [OF Cons.prems(1) Cons.prems(2) r] .
  then have "store_ok cd (accounts t') \<and> (\<forall>k. total_units k (accounts t') = total_units k (accounts t1))"
    using Cons.IH [of t1] Cons.prems(2) rest by simp
  with step show ?case by simp
qed

lemma accounts_foldl_UpdateToken: "accounts (foldl UpdateToken s ts) = accounts s"
  by (induction ts arbitrary: s) (simp_all add: UpdateToken_def)

lemma store_ok_foldl_UpdateAccount:
  "store_ok cd (accounts s) \<Longrightarrow>
   store_ok cd (accounts (foldl (\<lambda>s pk. UpdateAccount cd s (f pk)) s rs))"
proof (induction rs arbitrary: s)
  case Nil
  then show ?case by simp
next
  case (Cons r rs)
  have "store_ok cd (accounts (UpdateAccount cd s (f r)))"
    using store_ok_update [OF Cons.prems, of "f r"] by (simp add: UpdateAccount_def)
  then show ?case
    using Cons.IH by simp
qed

lemma total_units_foldl_UpdateAccount:
  assumes "distinct (map (addrOf cd) rs)"
    and "addrOf cd ` set rs \<inter> fst ` set (accounts s) = {}"
    and "\<And>pk. PK (f pk) = pk"
    and "\<And>pk. held k (f pk) = c"
  shows "total_units k (accounts (foldl (\<lambda>s pk. UpdateAccount cd s (f pk)) s rs))
     = total_units k (accounts s) + length rs * c"
  using assms(1,2)
proof (induction rs arbitrary: s)
  case Nil
  then show ?case by simp
next
  case (Cons r rs)
  let ?s1 = "UpdateAccount cd s (f r)"
  have acc1: "accounts ?s1 = AList.update (addrOf cd r) (f r) (accounts s)"
    by (simp add: UpdateAccount_def assms(3))
  have new: "addrOf cd r \<notin> fst ` set (accounts s)"
    using Cons.prems(2) by auto
  have t1: "total_units k (accounts ?s1) = total_units k (accounts s) + c"
    using total_units_update_new [OF new, of k "f r"] by (simp add: acc1 assms(4))
  have keys: "fst ` set (accounts ?s1) = {addrOf cd r} \<union> fst ` set (accounts s)"
    by (simp add: acc1 dom_update)
  have disj: "addrOf cd ` set rs \<inter> fst ` set (accounts ?s1) = {}"
    using Cons.prems keys by auto
  have "distinct (map (addrOf cd) rs)"
    using Cons.prems(1) by simp
  then have "total_units k (accounts (foldl (\<lambda>s pk. UpdateAccount cd s (f pk)) ?s1 rs))
     = total_units k (accounts ?s1) + length rs * c"
    using Cons.IH [of ?s1] disj by simp
  with t1 show ?case by simp
qed

lemma foldl_upd_other:
  "k \<notin> ID ` set ts \<Longrightarrow> foldl (\<lambda>m t. m(ID t \<mapsto> g t)) m0 ts k = m0 k"
  by (induction ts arbitrary: m0) auto

lemma foldl_upd_member:
  "distinct (map ID ts) \<Longrightarrow> tok \<in> set ts \<Longrightarrow>
   foldl (\<lambda>m t. m(ID t \<mapsto> g t)) m0 ts (ID tok) = Some (g tok)"
proof (induction ts arbitrary: m0)
  case Nil
  then show ?case by simp
next
  case (Cons t ts)
  show ?case
  proof (cases "tok \<in> set ts")
    case True
    then show ?thesis using Cons by simp
  next
    case False
    then have eq: "tok = t" using Cons.prems(2) by simp
    have notin: "ID t \<notin> ID ` set ts" using Cons.prems(1) by simp
    let ?F = "\<lambda>m t. m(ID t \<mapsto> g t)"
    have "foldl ?F m0 (t # ts) (ID t) = foldl ?F (m0(ID t \<mapsto> g t)) ts (ID t)"
      by (simp only: foldl_Cons)
    also have "\<dots> = (m0(ID t \<mapsto> g t)) (ID t)"
      using notin by (rule foldl_upd_other)
    also have "\<dots> = Some (g t)"
      by (simp only: fun_upd_same)
    finally show ?thesis
      by (simp only: eq)
  qed
qed

lemma held_genesis_account:
  assumes "distinct (map ID ts)" "tok \<in> set ts" "n < 2 ^ 64"
  shows "held (ID tok) (genesis_account n ts pk) = unat (TotalUnits (Info tok)) div n"
proof -
  have "unat (of_nat n :: uint64) = n"
    using assms(3) by (simp add: unat_of_nat)
  then have "unat (TotalUnits (Info tok) div of_nat n) = unat (TotalUnits (Info tok)) div n"
    by (simp add: unat_div)
  then show ?thesis
    using foldl_upd_member [OF assms(1,2), of "\<lambda>t. \<lparr>Available = TotalUnits (Info t) div of_nat n, Pending = 0\<rparr>" Map.empty]
    by (simp add: held_def genesis_account_def genesis_balances_def)
qed

lemma held_genesis_account_other:
  "k \<notin> ID ` set ts \<Longrightarrow> held k (genesis_account n ts pk) = 0"
  by (simp add: held_def genesis_account_def genesis_balances_def foldl_upd_other)

lemma ID_number_tokens:
  "map ID (number_tokens (of_nat j) ts) = map of_nat [j..<j + length ts]"
proof (induction ts arbitrary: j)
  case Nil
  then show ?case by simp
next
  case (Cons t ts)
  have ih: "map ID (number_tokens (of_nat (Suc j)) ts) = map of_nat [Suc j..<Suc j + length ts]"
    by (rule Cons.IH)
  have suc: "(of_nat j :: uint64) + 1 = of_nat (Suc j)"
    by simp
  have upt: "[j..<j + length (t # ts)] = j # [Suc j..<Suc j + length ts]"
    by (simp add: upt_conv_Cons del: upt_Suc)
  show ?case
    unfolding upt number_tokens.simps suc using ih by simp
qed

lemma distinct_genesis_tokens:
  assumes "length additionalTokens < 2 ^ 64 - 1"
  shows "distinct (map ID (genesis_tokens additionalTokens))"
proof -
  let ?m = "Suc (length additionalTokens)"
  have ids: "map ID (genesis_tokens additionalTokens) = map of_nat [0..<?m]"
    using ID_number_tokens [of 1 additionalTokens]
    by (simp add: genesis_tokens_def upt_conv_Cons del: upt_Suc)
  have "inj_on (of_nat :: nat \<Rightarrow> uint64) (set [0..<?m])"
  proof (rule inj_onI)
    fix x y assume "x \<in> set [0..<?m]" "y \<in> set [0..<?m]" and eq: "(of_nat x :: uint64) = of_nat y"
    then have "x < 2 ^ 64" "y < 2 ^ 64" using assms by auto
    then have "take_bit 64 x = x" "take_bit 64 y = y"
      by (simp_all add: take_bit_nat_eq_self)
    with eq show "x = y"
      by (simp add: word_of_nat_eq_iff)
  qed
  then show ?thesis
    by (simp add: ids distinct_map del: upt_Suc)
qed

lemma held_genesis_account_indep:
  "held k (genesis_account n ts pk) = held k (genesis_account n ts pk')"
  by (simp add: held_def genesis_account_def)

lemma genesis_store_ok: "store_ok cd (accounts (CreateGenesisState cd recipients additionalTokens))"
proof -
  have "store_ok cd (accounts (foldl UpdateToken NewState (genesis_tokens additionalTokens)))"
    by (simp add: accounts_foldl_UpdateToken NewState_def store_ok_def)
  then show ?thesis
    unfolding CreateGenesisState_def Let_def by (rule store_ok_foldl_UpdateAccount)
qed

lemma genesis_total:
  assumes "distinct (map (addrOf cd) recipients)"
  shows "total_units k (accounts (CreateGenesisState cd recipients additionalTokens))
     = length recipients
       * held k (genesis_account (length recipients) (genesis_tokens additionalTokens) [])"
proof -
  let ?ts = "genesis_tokens additionalTokens"
  let ?s0 = "foldl UpdateToken NewState ?ts"
  let ?f = "genesis_account (length recipients) ?ts"
  have empty: "accounts ?s0 = []"
    by (simp add: accounts_foldl_UpdateToken NewState_def)
  have "total_units k (accounts (foldl (\<lambda>s pk. UpdateAccount cd s (?f pk)) ?s0 recipients))
     = total_units k (accounts ?s0) + length recipients * held k (?f [])"
  proof (rule total_units_foldl_UpdateAccount)
    show "distinct (map (addrOf cd) recipients)" by (rule assms)
    show "addrOf cd ` set recipients \<inter> fst ` set (accounts ?s0) = {}" by (simp add: empty)
    show "PK (?f pk) = pk" for pk by (simp add: genesis_account_def)
    show "held k (?f pk) = held k (?f [])" for pk by (rule held_genesis_account_indep)
  qed
  then show ?thesis
    by (simp add: CreateGenesisState_def Let_def empty total_units_def)
qed


section \<open>Evaluating the scenarios\<close>

lemmas genesis_defs = CreateGenesisState_def genesis_tokens_def BNBInfo_def ACME_def
  UpdateToken_def UpdateAccount_def NewState_def genesis_account_def genesis_balances_def
  newTransition_def

lemmas record_defs = Record_def validateSigAndNonce_def validateNonce_def Account_of_def
  PlaceOrder_def SendToken_def CancelOrder_def IssueToken_def placeOrder_def sendToken_def
  UpdatePendingOrder_def UpdateAccount_def Let_def

lemma scenarioA_eq:
  "scenarioA = \<lparr>tokenCache = [0 \<mapsto> BNBInfo, 1 \<mapsto> ACME],
     accounts =
       [(P1, \<lparr>PK = P1, Balances = [0 \<mapsto> \<lparr>Available = 10000000000000000, Pending = 0\<rparr>,
                                    1 \<mapsto> \<lparr>Available = 500000, Pending = 0\<rparr>],
              NonceVec = [], OrderMarkets = []\<rparr>),
        (P2, \<lparr>PK = P2, Balances = [0 \<mapsto> \<lparr>Available = 10000000000000000, Pending = 0\<rparr>,
                                    1 \<mapsto> \<lparr>Available = 500000, Pending = 0\<rparr>],
              NonceVec = [], OrderMarkets = []\<rparr>)],
     pendingOrders = (\<lambda>_. []), orderExpirations = (\<lambda>_. []), txns = []\<rparr>"
  by (simp add: scenarioA_def genesis_defs scenario_codec_def P1_def P2_def)

lemma placeOrder_success_effect:
  assumes "placeOrder cd t owner p = (t', True)"
  shows "\<exists>sellQuant sell sb. Balances owner sell = Some sb \<and> sellQuant < Available sb
     \<and> (if SellSide p then sellQuant = Quant p \<and> sell = Base (Market p)
         else sellQuant = buyQuant cd (Quant p) (Price p) \<and> sell = Quote (Market p))
     \<and> accounts t' = AList.update (addrOf cd (PK owner))
           (owner\<lparr>Balances := (Balances owner)(sell \<mapsto>
              sb\<lparr>Available := Available sb - sellQuant, Pending := Pending sb + sellQuant\<rparr>)\<rparr>)
           (accounts t)
     \<and> pendingOrders t' = (pendingOrders t)(Market p :=
           pendingOrders t (Market p) @ [\<lparr>POwner = addrOf cd (PK owner), POrder = zero_Order\<rparr>])
     \<and> orderExpirations t' = orderExpirations t \<and> txns t' = txns t"
  using assms
  by (auto simp: placeOrder_def Let_def UpdateAccount_def UpdatePendingOrder_def not_le
      split: option.splits if_splits prod.splits)

lemma send_to_existing_account_fails:
  "map_of (accounts t) (addrOf cd (To p)) = Some x \<Longrightarrow> sendToken cd t owner p = (t, False)"
  by (simp add: sendToken_def Let_def split: option.splits)

lemma scenarioA_transfer_to_P2_refused:
  "Record scenario_codec scenarioA [1] = Inr (scenarioA, True, False)"
  by (simp add: scenarioA_eq record_defs scenario_codec_def P1_def P2_def)

lemma genesis_two:
  assumes a12: "addrOf cd p1 \<noteq> addrOf cd p2"
  shows "CreateGenesisState cd [p1, p2] [ACME] =
    \<lparr>tokenCache = [0 \<mapsto> BNBInfo, 1 \<mapsto> ACME],
     accounts =
       [(addrOf cd p1, \<lparr>PK = p1, Balances = scenarioA_balances, NonceVec = [], OrderMarkets = []\<rparr>),
        (addrOf cd p2, \<lparr>PK = p2, Balances = scenarioA_balances, NonceVec = [], OrderMarkets = []\<rparr>)],
     pendingOrders = (\<lambda>_. []), orderExpirations = (\<lambda>_. [])\<rparr>"
  using a12 by (simp add: genesis_defs scenarioA_balances_def)

section \<open>The chain: repeated adds, notarization shares, synchronisation\<close>

lemma addBP_again:
  assumes "addBP E c p w = Inr (c1, added, err)"
  shows "addBP E c1 p w' = Inr (c1, False, if added \<or> hashToBP c (hashBP E p) \<noteq> None then None else err)"
  using assms
  by (auto simp: addBP_def Let_def split: if_splits)

lemma finalize_hashToBlock:
  "finalize c r = Inr c' \<Longrightarrow> hashToBlock c' = hashToBlock c"
  by (auto simp: finalize_def Let_def split: if_splits list.splits)

lemma addBlock_finish_hashToBlock:
  "addBlock_finish E c3 h b bp = Inr (c', r) \<Longrightarrow> hashToBlock c' h = Some b"
  by (auto simp: addBlock_finish_def Let_def split: if_splits sum.splits option.splits
      dest!: finalize_hashToBlock)

lemma addBlock_stores:
  assumes "addBlock E c b bp s w = Inr (c1, r)"
  shows "hashToBlock c1 (hashBlock E b) \<noteq> None"
  using assms
  by (auto simp: addBlock_def Let_def split: if_splits sum.splits option.splits prod.splits
      dest!: addBlock_finish_hashToBlock)

lemma addBlock_again:
  assumes "addBlock E c b bp s w = Inr (c1, r)"
  shows "addBlock E c1 b bp' s' w' = Inr (c1, False, None)"
  using addBlock_stores [OF assms] by (simp add: addBlock_def)

lemma foldl_delete_shares:
  "foldl (\<lambda>m share. m(f share := None)) m xs k = (if k \<in> f ` set xs then None else m k)"
  by (induction xs arbitrary: m) auto

lemma addNtShare_Some:
  assumes "addNtShare E c n groupID = Inr (c', Some b, added, success)"
  shows "\<exists>bp st tr. hashToBP c (Nt_BP n) = Some bp
      \<and> blockToState c (BP_PrevBlock bp) = Inr (Some st)
      \<and> getTransition E st (BP_Data bp) (BP_Round bp) = (tr, None)
      \<and> b = (notarized_block E bp tr)\<lparr>NotarizationSig := NotarizationSig b\<rparr>
      \<and> 0 \<le> groupID \<and> groupID < int (length (groups c))
      \<and> sigVerify E (NotarizationSig b) (groups c ! nat groupID)
            (encodeBlock E False (notarized_block E bp tr))
      \<and> GroupThreshold c \<le> int (length (bpToNtShares c (Nt_BP n))) + 1
      \<and> c' = c\<lparr>bpToNtShares := (bpToNtShares c)(Nt_BP n := []),
               bpNeedNotarize := (bpNeedNotarize c)(Nt_BP n := None),
               hashToNtShare := foldl (\<lambda>m share. m(hashNtShare E share := None)) (hashToNtShare c)
                  (bpToNtShares c (Nt_BP n) @ [n])\<rparr>"
  using assms
  by (auto simp: addNtShare_def Let_def blockToState_def
      split: option.splits if_splits sum.splits prod.splits)

lemma addNtShare_None:
  assumes "addNtShare E c n groupID = Inr (c', None, added, success)"
    and "hashToBP c (Nt_BP n) \<noteq> None" "bpNeedNotarize c (Nt_BP n) = Some True"
    and "\<forall>s \<in> set (bpToNtShares c (Nt_BP n)). Nt_Owner s \<noteq> Nt_Owner n"
  shows "int (length (bpToNtShares c (Nt_BP n))) + 1 < GroupThreshold c
     \<and> added \<and> success
     \<and> bpToNtShares c' (Nt_BP n) = bpToNtShares c (Nt_BP n) @ [n]"
  using assms
  by (auto simp: addNtShare_def Let_def
      split: option.splits if_splits sum.splits prod.splits)

lemma addNtShare_below_threshold:
  assumes "addNtShare E c n groupID = Inr (c', blk, added, success)"
    and "int (length (bpToNtShares c (Nt_BP n))) + 1 < GroupThreshold c"
  shows "blk = None"
  using assms
  by (auto simp: addNtShare_def Let_def
      split: option.splits if_splits sum.splits prod.splits)

lemma sync_known_parent:
  assumes "hashToBlock c h = Some pb"
    and "syncBlockAndConnectToChain E rq c h r = Inr (c1, res)"
  shows "c1 = c"
  using assms
  by (subst (asm) syncBlockAndConnectToChain.simps) (auto split: sum.splits)

lemmas chain_defs = scenario_env_def scenario_chain_def bp1_def nt_share_def block1_def genesis_block_def
  addBP_def addNtShare_def addBlock_def addBlock_finish_def finalize_def findPrevBlock_def
  blockToState_def getTransition_def notarized_block_def chain_round_def remove_at_def Let_def


lemmas sync_defs = chain_defs bp2_def block2_def bp3_def block3_def scenarioF_requester_def
  SyncBlock_def validate_and_connect_def FinalizedRound_def syncBlockAndConnectToChain.simps

lemma scenarioE_reached:
  "\<exists>c0 c1. addBP scenario_env scenario_chain bp1 0 = Inr (c0, True, None)
     \<and> addNtShare scenario_env c0 (nt_share [11] [9]) 0 = Inr (c1, None, True, True)
     \<and> addNtShare scenario_env c1 (nt_share [12] [7]) 0 = Inr (scenarioE_chain, None, True, True)"
  by (simp add: chain_defs scenarioE_chain_def fun_upd_twist)

section \<open>Claims\<close>

text \<open>
  C1 (as amended). Conservation from genesis: when the recipients have distinct
  addresses, every state reached from \<open>CreateGenesisState\<close> by recording any batch of
  transactions holds, for every genesis token, the units that genesis handed out:
  \<open>len(recipients)\<close> times \<open>TotalUnits div len(recipients)\<close>, summed over all accounts
  as Available + Pending. That is \<open>TotalUnits\<close> when the number of recipients divides
  it.
\<close>

theorem C1_conservation_from_genesis:
  assumes dist: "distinct (map (addrOf cd) recipients)"
    and n: "length recipients < 2 ^ 64"
    and m: "length additionalTokens < 2 ^ 64 - 1"
    and tok: "tok \<in> set (genesis_tokens additionalTokens)"
    and run: "Record_all cd (newTransition (CreateGenesisState cd recipients additionalTokens)) bs = Inr t"
  shows "total_units (ID tok) (accounts t)
       = length recipients * (unat (TotalUnits (Info tok)) div length recipients)
     \<and> (recipients \<noteq> [] \<and> length recipients dvd unat (TotalUnits (Info tok))
          \<longrightarrow> total_units (ID tok) (accounts t) = unat (TotalUnits (Info tok)))"
proof -
  let ?g = "CreateGenesisState cd recipients additionalTokens"
  let ?ts = "genesis_tokens additionalTokens"
  let ?n = "length recipients"
  have ids: "distinct (map ID ?ts)"
    using m by (rule distinct_genesis_tokens)
  have acc: "accounts (newTransition ?g) = accounts ?g"
    by (simp add: newTransition_def)
  have ok: "store_ok cd (accounts (newTransition ?g))"
    by (simp add: acc genesis_store_ok)
  have bound: "total_units k (accounts (newTransition ?g)) < 2 ^ 64" for k
  proof (cases "k \<in> ID ` set ?ts")
    case True
    then obtain tk where tk: "tk \<in> set ?ts" "k = ID tk" by auto
    have "?n * (unat (TotalUnits (Info tk)) div ?n) \<le> unat (TotalUnits (Info tk))"
      by simp
    also have "\<dots> < 2 ^ 64"
      using unsigned_less [of "TotalUnits (Info tk)"] by simp
    finally show ?thesis
      using genesis_total [OF dist, of k additionalTokens] held_genesis_account [OF ids tk(1) n]
      by (simp add: acc tk(2))
  next
    case False
    then show ?thesis
      using genesis_total [OF dist, of k additionalTokens]
      by (simp add: acc held_genesis_account_other)
  qed
  have "total_units (ID tok) (accounts t) = total_units (ID tok) (accounts (newTransition ?g))"
    using Record_all_conserves [OF ok bound run] by simp
  also have "\<dots> = ?n * (unat (TotalUnits (Info tok)) div ?n)"
    using genesis_total [OF dist, of "ID tok" additionalTokens] held_genesis_account [OF ids tok n]
    by (simp add: acc)
  finally have main: "total_units (ID tok) (accounts t) = ?n * (unat (TotalUnits (Info tok)) div ?n)" .
  then show ?thesis
    by auto
qed

theorem C1_conservation_from_genesis_witness:
  "distinct (map (addrOf scenario_codec) [P1, P2])
   \<and> (\<exists>t. Record_all scenario_codec
          (newTransition (CreateGenesisState scenario_codec [P1, P2] [ACME])) [[5], [2]] = Inr t
        \<and> total_units 1 (accounts t) = 1000000)"
proof -
  let ?g = "newTransition (CreateGenesisState scenario_codec [P1, P2] [ACME])"
  have d: "distinct (map (addrOf scenario_codec) [P1, P2])"
    by (simp add: scenario_codec_def P1_def P2_def)
  have n: "length [P1, P2] < 2 ^ 64" and m: "length [ACME] < 2 ^ 64 - 1"
    by simp_all
  have tok: "\<lparr>ID = 1, Info = ACME\<rparr> \<in> set (genesis_tokens [ACME])"
    by (simp add: genesis_tokens_def)
  have "\<exists>t. Record_all scenario_codec ?g [[5], [2]] = Inr t"
    unfolding scenarioA_def [symmetric]
    by (simp add: scenarioA_eq record_defs scenario_codec_def P1_def P2_def P3_def sell_order_def
        ACME_BNB_def)
  then obtain t where run: "Record_all scenario_codec ?g [[5], [2]] = Inr t" ..
  have l: "length [P1, P2] = (2 :: nat)"
    by simp
  have "total_units 1 (accounts t) = 1000000"
    using C1_conservation_from_genesis [OF d n m tok run, THEN conjunct1] unfolding l
    by (simp add: ACME_def)
  with d run show ?thesis by blast
qed

text \<open>
  C1, as stated, fails at genesis: with three recipients the BNB supply of
  20000000000000000 units is not a multiple of three, every recipient gets the quotient,
  and two units are held by nobody.
\<close>

theorem C1_counterexample:
  "\<lparr>ID = 0, Info = BNBInfo\<rparr> \<in> set (genesis_tokens [])
   \<and> Record_all scenario_codec (newTransition (CreateGenesisState scenario_codec [P1, P2, P3] [])) []
       = Inr (newTransition (CreateGenesisState scenario_codec [P1, P2, P3] []))
   \<and> total_units 0 (accounts (newTransition (CreateGenesisState scenario_codec [P1, P2, P3] [])))
       = 19999999999999998
   \<and> unat (TotalUnits BNBInfo) = 20000000000000000"
  by (simp add: genesis_defs scenario_codec_def P1_def P2_def P3_def total_units_def held_def)

text \<open>
  C3. \<open>AddNtShare\<close> on a share of a known proposal that still needs notarization,
  from an owner with no share stored yet: while the stored shares with the new one are
  fewer than \<open>GroupThreshold\<close> it returns no block and stores the share; otherwise,
  when it returns, it returns a block whose \<open>StateRoot\<close> is the \<open>StateHash\<close> of the
  transition got by re-applying the proposal's transactions to the parent block's
  state, whose \<open>NotarizationSig\<close> verifies against the selected group's public key on
  the block's encoding without signature, and the shares stored for the proposal are
  cleared.
\<close>

theorem C3_addNtShare_threshold:
  assumes r: "addNtShare E c n groupID = Inr (c', blk, added, success)"
    and bp: "hashToBP c (Nt_BP n) = Some bp"
    and need: "bpNeedNotarize c (Nt_BP n) = Some True"
    and fresh: "\<forall>s \<in> set (bpToNtShares c (Nt_BP n)). Nt_Owner s \<noteq> Nt_Owner n"
  shows "if int (length (bpToNtShares c (Nt_BP n))) + 1 < GroupThreshold c
         then blk = None \<and> added \<and> success
              \<and> bpToNtShares c' (Nt_BP n) = bpToNtShares c (Nt_BP n) @ [n]
         else \<exists>b st tr. blk = Some b
              \<and> blockToState c (BP_PrevBlock bp) = Inr (Some st)
              \<and> getTransition E st (BP_Data bp) (BP_Round bp) = (tr, None)
              \<and> StateRoot b = trStateHash E tr
              \<and> sigVerify E (NotarizationSig b) (groups c ! nat groupID)
                   (encodeBlock E False (b\<lparr>NotarizationSig := []\<rparr>))
              \<and> bpToNtShares c' (Nt_BP n) = []
              \<and> (\<forall>s \<in> set (bpToNtShares c (Nt_BP n) @ [n]). hashToNtShare c' (hashNtShare E s) = None)"
proof (cases "int (length (bpToNtShares c (Nt_BP n))) + 1 < GroupThreshold c")
  case True
  then have none: "blk = None"
    using r by (rule addNtShare_below_threshold [rotated])
  then show ?thesis
    using True addNtShare_None [of E c n groupID c' added success] r bp need fresh by simp
next
  case False
  have "blk \<noteq> None"
  proof
    assume "blk = None"
    then show False
      using False addNtShare_None [of E c n groupID c' added success] r bp need fresh by simp
  qed
  then obtain b where b: "blk = Some b" by auto
  from addNtShare_Some [of E c n groupID c' b added success] r b bp
  obtain st tr where
    st: "blockToState c (BP_PrevBlock bp) = Inr (Some st)"
    and tr: "getTransition E st (BP_Data bp) (BP_Round bp) = (tr, None)"
    and blk: "b = (notarized_block E bp tr)\<lparr>NotarizationSig := NotarizationSig b\<rparr>"
    and ver: "sigVerify E (NotarizationSig b) (groups c ! nat groupID)
            (encodeBlock E False (notarized_block E bp tr))"
    and c': "c' = c\<lparr>bpToNtShares := (bpToNtShares c)(Nt_BP n := []),
               bpNeedNotarize := (bpNeedNotarize c)(Nt_BP n := None),
               hashToNtShare := foldl (\<lambda>m share. m(hashNtShare E share := None)) (hashToNtShare c)
                  (bpToNtShares c (Nt_BP n) @ [n])\<rparr>"
    by auto
  have root: "StateRoot b = trStateHash E tr"
    by (subst blk) (simp add: notarized_block_def)
  have unsigned: "b\<lparr>NotarizationSig := []\<rparr> = notarized_block E bp tr"
    by (subst blk) (simp add: notarized_block_def)
  have cleared: "\<forall>s \<in> set (bpToNtShares c (Nt_BP n) @ [n]). hashToNtShare c' (hashNtShare E s) = None"
    unfolding c' by (simp add: foldl_delete_shares del: foldl_append)
  show ?thesis
    using False b st tr root ver unsigned cleared by (auto simp: c')
qed

theorem C3_addNtShare_threshold_witness:
  "\<exists>c' b. addNtShare scenario_env scenarioE_chain (nt_share [13] [8]) 0 = Inr (c', Some b, True, True)
     \<and> StateRoot b = [7, 8]
     \<and> sigVerify scenario_env (NotarizationSig b) (groups scenarioE_chain ! 0)
          (encodeBlock scenario_env False (b\<lparr>NotarizationSig := []\<rparr>))
     \<and> bpToNtShares c' [80, 7, 8] = []"
proof -
  let ?n = "nt_share [13] [8]"
  have "\<exists>c' blk. addNtShare scenario_env scenarioE_chain ?n 0 = Inr (c', blk, True, True)"
    by (simp add: chain_defs scenarioE_chain_def)
  then obtain c' blk where r: "addNtShare scenario_env scenarioE_chain ?n 0 = Inr (c', blk, True, True)"
    by blast
  have n: "Nt_BP ?n = [80, 7, 8]"
    by (simp add: nt_share_def)
  have bp: "hashToBP scenarioE_chain (Nt_BP ?n) = Some bp1"
    by (simp add: scenarioE_chain_def nt_share_def)
  have need: "bpNeedNotarize scenarioE_chain (Nt_BP ?n) = Some True"
    by (simp add: scenarioE_chain_def nt_share_def)
  have fresh: "\<forall>s \<in> set (bpToNtShares scenarioE_chain (Nt_BP ?n)). Nt_Owner s \<noteq> Nt_Owner ?n"
    by (simp add: scenarioE_chain_def nt_share_def)
  have at: "\<not> int (length (bpToNtShares scenarioE_chain (Nt_BP ?n))) + 1 < GroupThreshold scenarioE_chain"
    by (simp add: scenarioE_chain_def scenario_chain_def nt_share_def)
  have tr: "getTransition scenario_env [] (BP_Data bp1) (BP_Round bp1) = ([[7], [8]], None)"
    by (simp add: chain_defs)
  from C3_addNtShare_threshold [OF r bp need fresh] at
  obtain b st tr' where b: "blk = Some b"
    and st: "blockToState scenarioE_chain (BP_PrevBlock bp1) = Inr (Some st)"
    and tr': "getTransition scenario_env st (BP_Data bp1) (BP_Round bp1) = (tr', None)"
    and root: "StateRoot b = trStateHash scenario_env tr'"
    and ver: "sigVerify scenario_env (NotarizationSig b) (groups scenarioE_chain ! nat 0)
                   (encodeBlock scenario_env False (b\<lparr>NotarizationSig := []\<rparr>))"
    and cleared: "bpToNtShares c' (Nt_BP ?n) = []"
    by (auto simp only: if_False)
  have "st = []"
    using st by (simp add: scenarioE_chain_def scenario_chain_def bp1_def blockToState_def)
  then have "tr' = [[7], [8]]"
    using tr tr' by simp
  then have "StateRoot b = [7, 8]"
    using root by (simp add: scenario_env_def)
  with r b ver cleared n show ?thesis
    by auto
qed

text \<open>
  C4. The claim is that a successful placement moves \<open>sellQuant\<close> from Available to
  Pending, appends a pending order carrying the placed order and indexes its
  expiration. The code moves the balance, but the pending order it appends carries the
  zero order, and no round gets an expiration entry: here for the sell order of
  scenario B, placed on the genesis state of scenario A.
\<close>

theorem C4_sell_order_placement:
  "\<exists>t'. Record scenario_codec scenarioA [2] = Inr (t', True, True)
      \<and> balance_of scenario_codec t' P1 1 = Some \<lparr>Available = 499000, Pending = 1000\<rparr>
      \<and> pendingOrders t' ACME_BNB = [\<lparr>POwner = P1, POrder = zero_Order\<rparr>]
      \<and> zero_Order \<noteq> order_of sell_order
      \<and> (\<forall>r. orderExpirations t' r = [])"
  by (simp add: scenarioA_eq record_defs scenario_codec_def P1_def P2_def sell_order_def ACME_BNB_def
      balance_of_def zero_Order_def order_of_def)

text \<open>
  C5. \<open>AddBP\<close> and \<open>AddBlock\<close> are idempotent: a second call with the same proposal
  (the same block) returns the chain that the first call returned, unchanged; and when
  the first call added the item or found it present, the second reports
  \<open>(false, nil)\<close>: already there, no error.
\<close>

theorem C5_add_idempotent:
  "(addBP E c p w = Inr (c1, added, err) \<longrightarrow>
      (\<exists>r. addBP E c1 p w' = Inr (c1, r))
      \<and> (added \<or> hashToBP c (hashBP E p) \<noteq> None \<longrightarrow> addBP E c1 p w' = Inr (c1, False, None)))
   \<and> (addBlock E c b bp s wb = Inr (c2, added2, err2) \<longrightarrow>
      addBlock E c2 b bp' s' wb' = Inr (c2, False, None))"
proof -
  have "addBP E c1 p w' = Inr (c1, False, if added \<or> hashToBP c (hashBP E p) \<noteq> None then None else err)"
    if "addBP E c p w = Inr (c1, added, err)"
    using that by (rule addBP_again)
  moreover have "addBlock E c2 b bp' s' wb' = Inr (c2, False, None)"
    if "addBlock E c b bp s wb = Inr (c2, added2, err2)"
    using that by (rule addBlock_again)
  ultimately show ?thesis
    by auto
qed

theorem C5_add_idempotent_witness:
  "\<exists>c0 c1. addBP scenario_env scenario_chain bp1 0 = Inr (c0, True, None)
     \<and> addBP scenario_env c0 bp1 0 = Inr (c0, False, None)
     \<and> addBlock scenario_env c0 block1 bp1 [[7], [8]] 0 = Inr (c1, True, None)
     \<and> hashToBlock c1 [66, 80, 7, 8] = Some block1
     \<and> addBlock scenario_env c1 block1 bp1 [[7], [8]] 0 = Inr (c1, False, None)"
proof -
  have "\<exists>c0. addBP scenario_env scenario_chain bp1 0 = Inr (c0, True, None)
      \<and> (\<exists>c1. addBlock scenario_env c0 block1 bp1 [[7], [8]] 0 = Inr (c1, True, None)
            \<and> hashToBlock c1 [66, 80, 7, 8] = Some block1)"
    by (simp add: chain_defs)
  then obtain c0 c1 where a: "addBP scenario_env scenario_chain bp1 0 = Inr (c0, True, None)"
    and b: "addBlock scenario_env c0 block1 bp1 [[7], [8]] 0 = Inr (c1, True, None)"
    and h: "hashToBlock c1 [66, 80, 7, 8] = Some block1"
    by blast
  have "addBP scenario_env c0 bp1 0 = Inr (c0, False, None)"
    using C5_add_idempotent [of scenario_env scenario_chain bp1 0 c0 True None 0] a by blast
  moreover have "addBlock scenario_env c1 block1 bp1 [[7], [8]] 0 = Inr (c1, False, None)"
    using C5_add_idempotent [of scenario_env c0 bp1 0 c0 False None 0
        block1 bp1 "[[7], [8]]" 0 c1 True None bp1 "[[7], [8]]" 0] b by blast
  ultimately show ?thesis
    using a b h by blast
qed

text \<open>
  C6 (as amended). When the fetched block's \<open>StateRoot\<close> differs from the
  \<open>StateHash\<close> of the transition rebuilt from its proposal on the parent's state,
  \<open>SyncBlock\<close> returns the invalid-state-root error and adds neither the block nor
  its proposal: the chain it leaves is the one left by synchronising the ancestors,
  which is the chain it started from when the round is 1 or the parent is already on
  the chain.
\<close>

theorem C6_state_root_mismatch:
  assumes unknown: "hashToBlock c hash = None"
    and above: "\<not> rnd \<le> FinalizedRound c"
    and blk: "RequestBlock rq hash = Inr b"
    and bpr: "RequestBlockProposal rq (Block_BlockProposal b) = Inr bp"
    and parent: "if rnd = 1
                 then finalized c \<noteq> [] \<and> Block_PrevBlock b = hd (finalized c)
                      \<and> blockToState c (Block_PrevBlock b) = Inr (Some st) \<and> c1 = c
                 else syncBlockAndConnectToChain E rq c (Block_PrevBlock b) (rnd - 1)
                      = Inr (c1, Inr (pb, Some st))"
    and tr: "getTransition E st (BP_Data bp) (BP_Round bp) = (tr, None)"
    and mismatch: "trStateHash E tr \<noteq> StateRoot b"
  shows "SyncBlock E rq c hash rnd = Inr (c1, Inl ErrInvalidStateRoot)
     \<and> (rnd = 1 \<or> hashToBlock c (Block_PrevBlock b) \<noteq> None \<longrightarrow> c1 = c)"
proof -
  have v: "validate_and_connect E rq c1 b (Some st) = Inr (c1, Inl ErrInvalidStateRoot)"
    using bpr tr mismatch by (simp add: validate_and_connect_def)
  have "syncBlockAndConnectToChain E rq c hash rnd = Inr (c1, Inl ErrInvalidStateRoot)"
  proof (cases "rnd = 1")
    case True
    then show ?thesis
      using unknown above blk parent v
      by (subst syncBlockAndConnectToChain.simps) auto
  next
    case False
    then show ?thesis
      using unknown above blk parent v
      by (subst syncBlockAndConnectToChain.simps) simp
  qed
  then have "SyncBlock E rq c hash rnd = Inr (c1, Inl ErrInvalidStateRoot)"
    by (simp add: SyncBlock_def)
  moreover have "c1 = c" if "rnd = 1 \<or> hashToBlock c (Block_PrevBlock b) \<noteq> None"
  proof (cases "rnd = 1")
    case True
    then show ?thesis using parent by simp
  next
    case False
    with that obtain x where "hashToBlock c (Block_PrevBlock b) = Some x" by auto
    then show ?thesis
      using sync_known_parent [of c "Block_PrevBlock b" x E rq "rnd - 1" c1] parent False by simp
  qed
  ultimately show ?thesis by blast
qed

theorem C6_state_root_mismatch_witness:
  "SyncBlock scenario_env scenarioF_requester scenario_chain [66, 80, 4] 1
      = Inr (scenario_chain, Inl ErrInvalidStateRoot)
   \<and> trStateHash scenario_env [[4]] \<noteq> StateRoot block3"
proof -
  have unknown: "hashToBlock scenario_chain [66, 80, 4] = None"
    by (simp add: scenario_chain_def)
  have above: "\<not> 1 \<le> FinalizedRound scenario_chain"
    by (simp add: FinalizedRound_def scenario_chain_def)
  have blk: "RequestBlock scenarioF_requester [66, 80, 4] = Inr block3"
    by (simp add: scenarioF_requester_def)
  have bpr: "RequestBlockProposal scenarioF_requester (Block_BlockProposal block3) = Inr bp3"
    by (simp add: scenarioF_requester_def block3_def)
  have parent: "if (1::nat) = 1
      then finalized scenario_chain \<noteq> [] \<and> Block_PrevBlock block3 = hd (finalized scenario_chain)
           \<and> blockToState scenario_chain (Block_PrevBlock block3) = Inr (Some []) \<and> scenario_chain = scenario_chain
      else syncBlockAndConnectToChain scenario_env scenarioF_requester scenario_chain
             (Block_PrevBlock block3) (1 - 1) = Inr (scenario_chain, Inr (genesis_block, Some []))"
    by (simp add: scenario_chain_def block3_def blockToState_def)
  have tr: "getTransition scenario_env [] (BP_Data bp3) (BP_Round bp3) = ([[4]], None)"
    by (simp add: chain_defs bp3_def)
  have mismatch: "trStateHash scenario_env [[4]] \<noteq> StateRoot block3"
    by (simp add: scenario_env_def block3_def)
  show ?thesis
    using C6_state_root_mismatch [OF unknown above blk bpr parent tr mismatch] mismatch by blast
qed

text \<open>
  C6, as stated, fails on "the chain's block set is unchanged": the peer serves
  \<open>block1\<close> (valid) and its child \<open>block2\<close> (wrong state root); synchronising
  \<open>block2\<close> at round 2 first connects \<open>block1\<close>, then rejects \<open>block2\<close>.
\<close>

theorem C6_counterexample:
  "RequestBlock scenarioF_requester [66, 80, 5] = Inr block2
   \<and> \<not> isl (SyncBlock scenario_env scenarioF_requester scenario_chain [66, 80, 5] 2)
   \<and> snd (projr (SyncBlock scenario_env scenarioF_requester scenario_chain [66, 80, 5] 2))
       = Inl ErrInvalidStateRoot
   \<and> hashToBlock scenario_chain [66, 80, 7, 8] = None
   \<and> hashToBlock (fst (projr (SyncBlock scenario_env scenarioF_requester scenario_chain [66, 80, 5] 2)))
         [66, 80, 7, 8] = Some block1
   \<and> hashToBlock (fst (projr (SyncBlock scenario_env scenarioF_requester scenario_chain [66, 80, 5] 2)))
         [66, 80, 5] = None"
  by (simp add: sync_defs)

text \<open>
  C7. The claim is that a transaction whose nonce value is ahead of the account's slot
  counter is valid but not ready, changes nothing and is not recorded. The code never
  reports not-ready: with P1's slot 0 at counter 7, the transfer with nonce (0, 9) is
  recorded as successful, appended to \<open>Txns\<close>, and P1's balance changes.
\<close>

theorem C7_not_ready_is_recorded:
  "map_option NonceVec (Account_of scenarioD P1) = Some [7]
   \<and> map_option (\<lambda>x. (NonceIdx x, NonceValue x)) (decodeTxn scenario_codec [4]) = Some (0, 9)
   \<and> (\<exists>t'. Record scenario_codec scenarioD [4] = Inr (t', True, True)
      \<and> Txns t' = [[4]]
      \<and> balance_of scenario_codec scenarioD P1 1 = Some \<lparr>Available = 500000, Pending = 0\<rparr>
      \<and> balance_of scenario_codec t' P1 1 = Some \<lparr>Available = 490000, Pending = 0\<rparr>)"
  by (simp add: scenarioD_def scenarioA_eq record_defs scenario_codec_def P1_def P2_def P3_def
      balance_of_def Txns_def genesis_defs)

text \<open>
  C8 (as amended). Genesis with two recipients of distinct addresses and the extra
  token ACME of 1000000 units gives each recipient exactly 500000 ACME and
  10000000000000000 BNB available, with nothing pending.
\<close>

theorem C8_genesis_balances:
  assumes a12: "addrOf cd p1 \<noteq> addrOf cd p2"
  shows "balance_of cd (CreateGenesisState cd [p1, p2] [ACME]) p1 1 = Some \<lparr>Available = 500000, Pending = 0\<rparr>
    \<and> balance_of cd (CreateGenesisState cd [p1, p2] [ACME]) p2 1 = Some \<lparr>Available = 500000, Pending = 0\<rparr>
    \<and> balance_of cd (CreateGenesisState cd [p1, p2] [ACME]) p1 0 = Some \<lparr>Available = 10000000000000000, Pending = 0\<rparr>
    \<and> balance_of cd (CreateGenesisState cd [p1, p2] [ACME]) p2 0 = Some \<lparr>Available = 10000000000000000, Pending = 0\<rparr>"
  unfolding genesis_two [OF a12] using a12
  by (simp add: balance_of_def Account_of_def scenarioA_balances_def)

theorem C8_genesis_balances_witness:
  "addrOf scenario_codec P1 \<noteq> addrOf scenario_codec P2
   \<and> balance_of scenario_codec (CreateGenesisState scenario_codec [P1, P2] [ACME]) P1 1
       = Some \<lparr>Available = 500000, Pending = 0\<rparr>
   \<and> balance_of scenario_codec (CreateGenesisState scenario_codec [P1, P2] [ACME]) P2 0
       = Some \<lparr>Available = 10000000000000000, Pending = 0\<rparr>"
proof -
  have a: "addrOf scenario_codec P1 \<noteq> addrOf scenario_codec P2"
    by (simp add: scenario_codec_def P1_def P2_def)
  show ?thesis
    using C8_genesis_balances [OF a] a by blast
qed

text \<open>
  C8, as stated, fails on the BNB amount: each of the two recipients holds
  10000000000000000 BNB, not 100000000000000.
\<close>

theorem C8_counterexample:
  "balance_of scenario_codec (CreateGenesisState scenario_codec [P1, P2] [ACME]) P1 0
     \<noteq> Some \<lparr>Available = 100000000000000, Pending = 0\<rparr>"
  by (simp add: genesis_defs scenario_codec_def P1_def P2_def balance_of_def Account_of_def)

text \<open>
  C9. \<open>MarketSymbol.Decode\<close> is a left inverse of \<open>MarketSymbol.Encode\<close>: the encoding
  is 128 bytes long, made of the eight little-endian bytes of \<open>Quote\<close> padded with zeros
  to 64 bytes followed by the same for \<open>Base\<close>; decoding it gives the symbol back with no
  error; and \<open>Decode\<close> of a byte string whose length is not 128 returns the length
  error.
\<close>

theorem C9_Decode_Encode:
  "Decode (Encode m) = Inr m
   \<and> length (Encode m) = 128
   \<and> Encode m = PutUint64 (replicate 64 0) (Quote m) @ PutUint64 (replicate 64 0) (Base m)
   \<and> (\<forall>b. length b \<noteq> 128 \<longrightarrow> Decode b = Inl (BytesLenNotCorrect (length b)))"
proof -
  have q: "Uint64 (take 64 (Encode m)) = Quote m"
    by (simp add: Encode_def make_bytes_def Let_def Uint64_PutUint64')
  have b: "Uint64 (drop 64 (Encode m)) = Base m"
    by (simp add: Encode_def make_bytes_def Let_def Uint64_PutUint64')
  have "Decode (Encode m) = Inr m"
    by (simp add: Decode_def length_Encode q b)
  moreover have "Encode m = PutUint64 (replicate 64 0) (Quote m) @ PutUint64 (replicate 64 0) (Base m)"
    by (simp add: Encode_def make_bytes_def Let_def)
  ultimately show ?thesis
    by (simp add: length_Encode Decode_def)
qed

theorem C9_Decode_Encode_witness:
  "Decode (Encode \<lparr>Base = 1, Quote = 0\<rparr>) = Inr \<lparr>Base = 1, Quote = 0\<rparr>
   \<and> length [7 :: byte] \<noteq> 128 \<and> Decode [7] = Inl (BytesLenNotCorrect 1)"
proof -
  note c9 = C9_Decode_Encode [of "\<lparr>Base = 1, Quote = 0\<rparr>"]
  have h: "length [7 :: byte] \<noteq> 128" by simp
  have "Decode [7] = Inl (BytesLenNotCorrect (length [7 :: byte]))"
    using c9 h by blast
  then have "Decode [7] = Inl (BytesLenNotCorrect 1)" by simp
  with h c9 [THEN conjunct1] show ?thesis by blast
qed

text \<open>
  C10. Failure atomicity of \<open>Record\<close>: whenever \<open>Record\<close> returns with
  \<open>success = false\<close> (invalid bytes or owner, a payload that does not decode, a
  placement or transfer that is refused), the transition it returns is the one it was
  given: the same recorded transactions, accounts, pending orders and expirations.
\<close>

theorem C10_Record_failure_atomic:
  "Record cd t b = Inr (t', valid, False) \<Longrightarrow>
     t' = t \<and> Txns t' = Txns t \<and> accounts t' = accounts t
     \<and> pendingOrders t' = pendingOrders t \<and> orderExpirations t' = orderExpirations t"
  by (auto dest: Record_fail_unchanged)

theorem C10_Record_failure_atomic_witness:
  "\<exists>t' valid. Record scenario_codec scenarioA [1] = Inr (t', valid, False)
      \<and> t' = scenarioA \<and> Txns t' = []"
proof -
  have h: "Record scenario_codec scenarioA [1] = Inr (scenarioA, True, False)"
    by (simp add: scenarioA_eq record_defs scenario_codec_def P1_def P2_def)
  have "Txns scenarioA = []"
    by (simp add: scenarioA_eq Txns_def)
  with h C10_Record_failure_atomic [OF h] show ?thesis by blast
qed

end
